theory Spec2Isabelle
  imports Complex_Main
begin

section \<open>Exceptions, message content and configuration\<close>

text \<open>
  The client library wraps a chat API with a chainable request builder
  (\<open>QianwenChat\<close>), a conversation memory (\<open>MemoryManager\<close>) and a request log
  (\<open>LogManager\<close>), both over pluggable storages chosen by \<open>StorageFactory\<close>.

  A raised Python exception is a value \<open>Exn cls msg\<close>: \<open>cls\<close> is
  \<open>type(e).__name__\<close> and \<open>msg\<close> is \<open>str(e)\<close>. Every handler of the source is
  \<open>except Exception\<close>, and the exceptions of the model are the instances of
  \<open>Exception\<close>; signals that are only \<open>BaseException\<close> (a keyboard interrupt, a
  task cancellation) are outside the model. A function that can raise returns
  \<open>exn + 'a\<close>, with \<open>Inl\<close> for the raise. Strings are byte strings (UTF-8), so
  the non-ASCII message literals of the source are written as their bytes.
\<close>

datatype exn = Exn (exn_type: string) (exn_message: string)

text \<open>
  \<open>ChatMessage.content\<close> is \<open>Union[str, List[Dict[str, Any]]]\<close>, and the API may
  return any JSON value as the content of a reply: a content is a string or some
  other Python value, whose type \<open>'j\<close> is left open.
\<close>

datatype 'j content = Str string | Obj 'j

type_synonym metadata = "(string \<times> string) list"

record 'j ChatMessage =
  cm_role :: string
  cm_content :: "'j content"
  cm_timestamp :: int
  cm_user_id :: "string option"
  cm_session_id :: "string option"
  cm_metadata :: metadata

text \<open>
  The configuration classes, with the fields the modelled code reads. The connection
  settings (URIs, database names, Redis and file settings, TTL) are read only by
  \<open>initialize\<close>, which is not modelled. \<open>'c\<close> is the type of a caller-supplied
  storage instance.

  A supplied instance comes with its truth value as a Python object, \<open>bool(instance)\<close>:
  true for an instance of a class that defines neither \<open>__bool__\<close> nor \<open>__len__\<close> (the
  abstract bases, the built-in storages and the storages of the examples define neither),
  and whatever those methods say otherwise, for instance false for a storage that is a
  container while it is empty.
\<close>

record 'c supplied =
  si_object :: 'c
  si_truth :: bool

record ModelConfig =
  default_model :: string
  default_temperature :: real
  default_max_tokens :: int
  default_system_message :: "string option"

record 'c MemoryConfig =
  mc_enabled :: bool
  mc_storage_type :: string
  mc_max_history_length :: int
  mc_custom_storage :: "'c supplied option"

record 'c LogConfig =
  lc_enabled :: bool
  lc_storage_type :: string
  lc_log_requests :: bool
  lc_log_responses :: bool
  lc_log_errors :: bool
  lc_custom_storage :: "'c supplied option"

section \<open>The built-in MongoDB storages\<close>

text \<open>
  A built-in storage object and the server-side collection it talks to are one record.
  \<open>ms_connected\<close> is \<open>self._collection is not None\<close>; \<open>ms_docs\<close> are the documents
  of the collection in insertion order; \<open>ms_up\<close> tells whether a driver call succeeds
  (when it is false the call raises, and the \<open>except Exception\<close> of the storage method
  turns that into its failure value); \<open>ms_utcnow k\<close> is the \<open>k\<close>-th reading of
  \<open>datetime.utcnow()\<close> and \<open>ms_reads\<close> counts the readings made so far.
\<close>

record 'd MongoStorage =
  ms_connected :: bool
  ms_docs :: "'d list"
  ms_up :: bool
  ms_utcnow :: "nat \<Rightarrow> int"
  ms_reads :: nat

record mem_doc =
  d_user_id :: "string option"
  d_session_id :: "string option"
  d_role :: string
  d_content :: string
  d_metadata :: metadata
  d_timestamp :: int

text \<open>
  The dictionaries a memory storage returns from \<open>get_history\<close>
  (\<open>List[Dict[str, Any]]\<close>): a key may be missing, which is \<open>None\<close> here.
\<close>

record 'j msg_data =
  md_role :: "string option"
  md_content :: "'j content option"
  md_metadata :: "metadata option"
  md_timestamp :: "int option"

text \<open>
  A constructor leaves \<open>_collection = None\<close>: the new object is not connected to
  the server-side collection \<open>srv\<close> that its configuration names.
\<close>

definition Mongo_init :: "'d MongoStorage \<Rightarrow> 'd MongoStorage" where
  "Mongo_init srv = srv\<lparr>ms_connected := False\<rparr>"

text \<open>
  \<open>if limit:\<close> on an \<open>Optional[int]\<close>: \<open>None\<close> and \<open>0\<close> are false. The result
  is the limit when the test succeeds.
\<close>

definition truthy_limit :: "int option \<Rightarrow> int option" where
  "truthy_limit limit = (case limit of None \<Rightarrow> None | Some l \<Rightarrow> if l \<noteq> 0 then Some l else None)"

text \<open>
  \<open>cursor.limit(n)\<close> of the driver, for \<open>n \<noteq> 0\<close> (the source calls it with no other
  value): at most \<open>|n|\<close> documents, from the front of the sorted cursor.
\<close>

definition cursor_limit :: "int \<Rightarrow> 'a list \<Rightarrow> 'a list" where
  "cursor_limit n xs = take (nat \<bar>n\<bar>) xs"

definition MongoMemoryStorage_save_message ::
  "mem_doc MongoStorage \<Rightarrow> string option \<Rightarrow> string option \<Rightarrow> string \<Rightarrow> string \<Rightarrow> metadata
     \<Rightarrow> bool \<times> mem_doc MongoStorage" where
  "MongoMemoryStorage_save_message m user session role content' meta =
     (if \<not> ms_connected m then (False, m)
      else
        let document = \<lparr>d_user_id = user, d_session_id = session, d_role = role,
                         d_content = content', d_metadata = meta,
                         d_timestamp = ms_utcnow m (ms_reads m)\<rparr>;
            m1 = m\<lparr>ms_reads := Suc (ms_reads m)\<rparr>
        in if ms_up m1 then (True, m1\<lparr>ms_docs := ms_docs m1 @ [document]\<rparr>)
           else (False, m1))"

text \<open>
  The limit of \<open>get_history\<close>: \<open>if limit: cursor = cursor.limit(limit)\<close>
  \<open>elif self.config.max_history_length > 0: cursor =
  cursor.limit(self.config.max_history_length)\<close>, and no limit otherwise.
\<close>

definition apply_limit :: "int \<Rightarrow> int option \<Rightarrow> 'a list \<Rightarrow> 'a list" where
  "apply_limit max_history_length limit cursor =
     (case truthy_limit limit of
        Some l \<Rightarrow> cursor_limit l cursor
      | None \<Rightarrow>
          if max_history_length > 0 then cursor_limit max_history_length cursor else cursor)"

text \<open>The dictionary \<open>get_history\<close> builds from a document.\<close>

definition as_dict :: "mem_doc \<Rightarrow> 'j msg_data" where
  "as_dict doc = \<lparr>md_role = Some (d_role doc), md_content = Some (Str (d_content doc)),
                   md_metadata = Some (d_metadata doc), md_timestamp = Some (d_timestamp doc)\<rparr>"

text \<open>
  \<open>find(query).sort("timestamp", 1)\<close>, then the limit, then one dictionary per
  document. The sort is the stable insertion sort \<open>sort_key\<close>; the server promises no
  order among equal timestamps.
\<close>

definition MongoMemoryStorage_get_history ::
  "int \<Rightarrow> mem_doc MongoStorage \<Rightarrow> string \<Rightarrow> string \<Rightarrow> int option \<Rightarrow> 'j msg_data list" where
  "MongoMemoryStorage_get_history max_history_length m user session limit =
     (if \<not> ms_connected m then []
      else if \<not> ms_up m then []
      else
        let found = filter (\<lambda>d. d_user_id d = Some user \<and> d_session_id d = Some session)
                      (ms_docs m);
            cursor = apply_limit max_history_length limit (sort_key d_timestamp found)
        in map as_dict cursor)"

definition MongoMemoryStorage_clear_history ::
  "mem_doc MongoStorage \<Rightarrow> string \<Rightarrow> string \<Rightarrow> bool \<times> mem_doc MongoStorage" where
  "MongoMemoryStorage_clear_history m user session =
     (if \<not> ms_connected m then (False, m)
      else if \<not> ms_up m then (False, m)
      else (True, m\<lparr>ms_docs :=
              filter (\<lambda>d. \<not> (d_user_id d = Some user \<and> d_session_id d = Some session))
                (ms_docs m)\<rparr>))"

section \<open>The storage factory\<close>

datatype 'c MemoryStorage = MongoMemoryStorage "mem_doc MongoStorage" | CustomMemoryStorage 'c

definition msg_redis_not_implemented :: string where
  "msg_redis_not_implemented = ''Redis'' @ [CHR 0xE5, CHR 0xAD, CHR 0x98, CHR 0xE5, CHR 0x82,
     CHR 0xA8, CHR 0xE5, CHR 0xB0, CHR 0x9A, CHR 0xE6, CHR 0x9C, CHR 0xAA, CHR 0xE5, CHR 0xAE,
     CHR 0x9E, CHR 0xE7, CHR 0x8E, CHR 0xB0, CHR 0xEF, CHR 0xBC, CHR 0x8C, CHR 0xE8, CHR 0xAF,
     CHR 0xB7, CHR 0xE4, CHR 0xBD, CHR 0xBF, CHR 0xE7, CHR 0x94, CHR 0xA8, CHR 0xE8, CHR 0x87,
     CHR 0xAA, CHR 0xE5, CHR 0xAE, CHR 0x9A, CHR 0xE4, CHR 0xB9, CHR 0x89, CHR 0xE5, CHR 0xAD,
     CHR 0x98, CHR 0xE5, CHR 0x82, CHR 0xA8]"

definition msg_file_not_implemented :: string where
  "msg_file_not_implemented = [CHR 0xE6, CHR 0x96, CHR 0x87, CHR 0xE4, CHR 0xBB, CHR 0xB6,
     CHR 0xE5, CHR 0xAD, CHR 0x98, CHR 0xE5, CHR 0x82, CHR 0xA8, CHR 0xE5, CHR 0xB0, CHR 0x9A,
     CHR 0xE6, CHR 0x9C, CHR 0xAA, CHR 0xE5, CHR 0xAE, CHR 0x9E, CHR 0xE7, CHR 0x8E, CHR 0xB0,
     CHR 0xEF, CHR 0xBC, CHR 0x8C, CHR 0xE8, CHR 0xAF, CHR 0xB7, CHR 0xE4, CHR 0xBD, CHR 0xBF,
     CHR 0xE7, CHR 0x94, CHR 0xA8, CHR 0xE8, CHR 0x87, CHR 0xAA, CHR 0xE5, CHR 0xAE, CHR 0x9A,
     CHR 0xE4, CHR 0xB9, CHR 0x89, CHR 0xE5, CHR 0xAD, CHR 0x98, CHR 0xE5, CHR 0x82, CHR 0xA8]"

definition msg_unsupported_storage :: string where
  "msg_unsupported_storage = [CHR 0xE4, CHR 0xB8, CHR 0x8D, CHR 0xE6, CHR 0x94, CHR 0xAF,
     CHR 0xE6, CHR 0x8C, CHR 0x81, CHR 0xE7, CHR 0x9A, CHR 0x84, CHR 0xE5, CHR 0xAD, CHR 0x98,
     CHR 0xE5, CHR 0x82, CHR 0xA8, CHR 0xE7, CHR 0xB1, CHR 0xBB, CHR 0xE5, CHR 0x9E, CHR 0x8B]
     @ '': ''"

definition msg_log_file_not_implemented :: string where
  "msg_log_file_not_implemented = [CHR 0xE6, CHR 0x96, CHR 0x87, CHR 0xE4, CHR 0xBB, CHR 0xB6,
     CHR 0xE6, CHR 0x97, CHR 0xA5, CHR 0xE5, CHR 0xBF, CHR 0x97, CHR 0xE5, CHR 0xAD, CHR 0x98,
     CHR 0xE5, CHR 0x82, CHR 0xA8, CHR 0xE5, CHR 0xB0, CHR 0x9A, CHR 0xE6, CHR 0x9C, CHR 0xAA,
     CHR 0xE5, CHR 0xAE, CHR 0x9E, CHR 0xE7, CHR 0x8E, CHR 0xB0, CHR 0xEF, CHR 0xBC, CHR 0x8C,
     CHR 0xE8, CHR 0xAF, CHR 0xB7, CHR 0xE4, CHR 0xBD, CHR 0xBF, CHR 0xE7, CHR 0x94, CHR 0xA8,
     CHR 0xE8, CHR 0x87, CHR 0xAA, CHR 0xE5, CHR 0xAE, CHR 0x9A, CHR 0xE4, CHR 0xB9, CHR 0x89,
     CHR 0xE5, CHR 0xAD, CHR 0x98, CHR 0xE5, CHR 0x82, CHR 0xA8]"

definition msg_unsupported_log_storage :: string where
  "msg_unsupported_log_storage = [CHR 0xE4, CHR 0xB8, CHR 0x8D, CHR 0xE6, CHR 0x94, CHR 0xAF,
     CHR 0xE6, CHR 0x8C, CHR 0x81, CHR 0xE7, CHR 0x9A, CHR 0x84, CHR 0xE6, CHR 0x97, CHR 0xA5,
     CHR 0xE5, CHR 0xBF, CHR 0x97, CHR 0xE5, CHR 0xAD, CHR 0x98, CHR 0xE5, CHR 0x82, CHR 0xA8,
     CHR 0xE7, CHR 0xB1, CHR 0xBB, CHR 0xE5, CHR 0x9E, CHR 0x8B] @ '': ''"

text \<open>
  The test \<open>if config.custom_storage:\<close> of both factory methods. It is a test of the
  object's truth value: it fails when the field is \<open>None\<close> and also when a supplied
  instance is false. When it succeeds the result is the instance.
\<close>

definition if_custom_storage :: "'c supplied option \<Rightarrow> 'c option" where
  "if_custom_storage custom_storage =
     (case custom_storage of
        None \<Rightarrow> None
      | Some custom \<Rightarrow> if si_truth custom then Some (si_object custom) else None)"

text \<open>
  \<open>StorageFactory.create_memory_storage\<close>; \<open>srv\<close> is the server-side collection the
  configuration names.
\<close>

definition create_memory_storage ::
  "mem_doc MongoStorage \<Rightarrow> 'c MemoryConfig \<Rightarrow> exn + 'c MemoryStorage option" where
  "create_memory_storage srv config =
     (if \<not> mc_enabled config then Inr None
      else case if_custom_storage (mc_custom_storage config) of
        Some custom \<Rightarrow> Inr (Some (CustomMemoryStorage custom))
      | None \<Rightarrow>
          if mc_storage_type config = ''mongodb''
            then Inr (Some (MongoMemoryStorage (Mongo_init srv)))
          else if mc_storage_type config = ''redis''
            then Inl (Exn ''NotImplementedError'' msg_redis_not_implemented)
          else if mc_storage_type config = ''file''
            then Inl (Exn ''NotImplementedError'' msg_file_not_implemented)
          else Inl (Exn ''ValueError'' (msg_unsupported_storage @ mc_storage_type config)))"

text \<open>
  The request sent to the chat API and what comes back. A message of a request is a
  (role, content) pair. \<open>rp_stream\<close> is the \<open>"stream"\<close> key (absent in \<open>ask\<close>, which
  \<open>request_data.get("stream", False)\<close> reads as false), \<open>rp_tools\<close> tells whether the
  web-search tool descriptor is attached, \<open>rp_stream_options\<close> whether
  \<open>stream_options = {"include_usage": True}\<close> is. Calls are taken without extra keyword
  arguments.
\<close>

type_synonym 'j api_message = "string \<times> 'j content"

record 'j request_params =
  rp_model :: string
  rp_messages :: "'j api_message list"
  rp_temperature :: real
  rp_max_tokens :: int
  rp_stream :: bool
  rp_tools :: bool
  rp_stream_options :: bool

text \<open>
  \<open>response.model_dump()\<close>. A choice is a dictionary: \<open>Choice c\<close> is one whose
  \<open>message\<close> has the \<open>content\<close> \<open>c\<close>, and \<open>Broken e\<close> is one on which the subscripts
  \<open>['message']['content']\<close> raise \<open>e\<close> (\<open>KeyError\<close> for a missing key, \<open>TypeError\<close> for
  a message that is \<open>None\<close>). A streamed chunk carries in each choice
  \<open>delta.content\<close>, a string or \<open>None\<close>.
\<close>

datatype 'j choice = Choice "'j content" | Broken exn

definition choice_content :: "'j choice \<Rightarrow> exn + 'j content" where
  "choice_content ch = (case ch of Choice c \<Rightarrow> Inr c | Broken e \<Rightarrow> Inl e)"

record 'j response =
  rs_choices :: "'j choice list"
  rs_usage :: "nat option"
  rs_model :: string
  rs_created :: int

record chunk =
  ck_choices :: "string option list"

text \<open>
  The dictionary handed to \<open>LogManager.log_response\<close>: the dumped response in
  \<open>ask\<close>, and \<open>{"content": full_content, "stream": True}\<close> in \<open>stream\<close>.
\<close>

datatype 'j response_data = FullResponse "'j response" | StreamResponse string

text \<open>The payloads the log manager hands to a log storage.\<close>

datatype 'j log_data =
    RequestLog string string "'j api_message list" real int bool
  | ResponseLog "'j choice list option" "nat option" "string option" "int option"
  | ErrorLog string string "'j request_params option"

record 'j log_doc =
  ld_user_id :: string
  ld_session_id :: string
  ld_log_type :: string
  ld_data :: "'j log_data"
  ld_request_id :: "string option"
  ld_timestamp :: int

text \<open>
  \<open>MongoLogStorage\<close>. Its \<open>self.config\<close> is the \<open>LogConfig\<close> object of the manager
  that owns it, so each method takes that configuration as an argument. The three
  methods differ in the flag they test, the \<open>log_type\<close> they write and the
  \<open>request_id\<close> key, which only a response document has; their common body is
  \<open>MongoLogStorage_log\<close>.
\<close>

definition MongoLogStorage_log ::
  "bool \<Rightarrow> 'j log_doc MongoStorage \<Rightarrow> string \<Rightarrow> string \<Rightarrow> string \<Rightarrow> 'j log_data \<Rightarrow> string option
     \<Rightarrow> bool \<times> 'j log_doc MongoStorage" where
  "MongoLogStorage_log flag m user session log_type data' request_id =
     (if \<not> flag \<or> \<not> ms_connected m then (False, m)
      else
        let document = \<lparr>ld_user_id = user, ld_session_id = session, ld_log_type = log_type,
                         ld_data = data', ld_request_id = request_id,
                         ld_timestamp = ms_utcnow m (ms_reads m)\<rparr>;
            m1 = m\<lparr>ms_reads := Suc (ms_reads m)\<rparr>
        in if ms_up m1 then (True, m1\<lparr>ms_docs := ms_docs m1 @ [document]\<rparr>)
           else (False, m1))"

definition MongoLogStorage_log_request ::
  "'c LogConfig \<Rightarrow> 'j log_doc MongoStorage \<Rightarrow> string \<Rightarrow> string \<Rightarrow> 'j log_data
     \<Rightarrow> bool \<times> 'j log_doc MongoStorage" where
  "MongoLogStorage_log_request config m user session request_data =
     MongoLogStorage_log (lc_log_requests config) m user session ''request'' request_data None"

definition MongoLogStorage_log_response ::
  "'c LogConfig \<Rightarrow> 'j log_doc MongoStorage \<Rightarrow> string \<Rightarrow> string \<Rightarrow> 'j log_data \<Rightarrow> string option
     \<Rightarrow> bool \<times> 'j log_doc MongoStorage" where
  "MongoLogStorage_log_response config m user session response_data request_id =
     MongoLogStorage_log (lc_log_responses config) m user session ''response'' response_data
       request_id"

definition MongoLogStorage_log_error ::
  "'c LogConfig \<Rightarrow> 'j log_doc MongoStorage \<Rightarrow> string \<Rightarrow> string \<Rightarrow> 'j log_data
     \<Rightarrow> bool \<times> 'j log_doc MongoStorage" where
  "MongoLogStorage_log_error config m user session error_data =
     MongoLogStorage_log (lc_log_errors config) m user session ''error'' error_data None"

datatype ('c, 'j) LogStorage = MongoLogStorage "'j log_doc MongoStorage" | CustomLogStorage 'c

definition create_log_storage ::
  "'j log_doc MongoStorage \<Rightarrow> 'c LogConfig \<Rightarrow> exn + ('c, 'j) LogStorage option" where
  "create_log_storage srv config =
     (if \<not> lc_enabled config then Inr None
      else case if_custom_storage (lc_custom_storage config) of
        Some custom \<Rightarrow> Inr (Some (CustomLogStorage custom))
      | None \<Rightarrow>
          if lc_storage_type config = ''mongodb''
            then Inr (Some (MongoLogStorage (Mongo_init srv)))
          else if lc_storage_type config = ''file''
            then Inl (Exn ''NotImplementedError'' msg_log_file_not_implemented)
          else Inl (Exn ''ValueError''
                 (msg_unsupported_log_storage @ lc_storage_type config)))"

section \<open>Caller-supplied storages\<close>

text \<open>
  A caller-supplied storage is any object with the methods of the abstract base: a
  record of its methods, each a function of the object's own state \<open>'s\<close> that returns
  a result or an exception together with the state it leaves, and the current state.
\<close>

record ('s, 'j) custom_memory_storage =
  cs_save_message ::
    "string option \<Rightarrow> string option \<Rightarrow> string \<Rightarrow> string \<Rightarrow> metadata \<Rightarrow> 's \<Rightarrow> (exn + bool) \<times> 's"
  cs_get_history :: "string \<Rightarrow> string \<Rightarrow> int option \<Rightarrow> 's \<Rightarrow> (exn + 'j msg_data list) \<times> 's"
  cs_clear_history :: "string \<Rightarrow> string \<Rightarrow> 's \<Rightarrow> (exn + bool) \<times> 's"
  cs_state :: 's

record ('l, 'j) custom_log_storage =
  cl_log_request :: "string \<Rightarrow> string \<Rightarrow> 'j log_data \<Rightarrow> 'l \<Rightarrow> (exn + bool) \<times> 'l"
  cl_log_response ::
    "string \<Rightarrow> string \<Rightarrow> 'j log_data \<Rightarrow> string option \<Rightarrow> 'l \<Rightarrow> (exn + bool) \<times> 'l"
  cl_log_error :: "string \<Rightarrow> string \<Rightarrow> 'j log_data \<Rightarrow> 'l \<Rightarrow> (exn + bool) \<times> 'l"
  cl_state :: 'l

text \<open>
  The method calls \<open>self.storage.save_message(...)\<close> and so on, dispatched on the class
  of the storage object. The built-in methods catch their own exceptions and never raise.
\<close>

definition storage_save_message ::
  "('s, 'j) custom_memory_storage MemoryStorage \<Rightarrow> string option \<Rightarrow> string option \<Rightarrow> string
     \<Rightarrow> string \<Rightarrow> metadata \<Rightarrow> (exn + bool) \<times> ('s, 'j) custom_memory_storage MemoryStorage" where
  "storage_save_message st user session role content' meta =
     (case st of
        MongoMemoryStorage m \<Rightarrow>
          (let (ok, m') = MongoMemoryStorage_save_message m user session role content' meta
           in (Inr ok, MongoMemoryStorage m'))
      | CustomMemoryStorage c \<Rightarrow>
          (let (r, s') = cs_save_message c user session role content' meta (cs_state c)
           in (r, CustomMemoryStorage (c\<lparr>cs_state := s'\<rparr>))))"

definition storage_get_history ::
  "int \<Rightarrow> ('s, 'j) custom_memory_storage MemoryStorage \<Rightarrow> string \<Rightarrow> string \<Rightarrow> int option
     \<Rightarrow> (exn + 'j msg_data list) \<times> ('s, 'j) custom_memory_storage MemoryStorage" where
  "storage_get_history max_history_length st user session limit =
     (case st of
        MongoMemoryStorage m \<Rightarrow>
          (Inr (MongoMemoryStorage_get_history max_history_length m user session limit),
           MongoMemoryStorage m)
      | CustomMemoryStorage c \<Rightarrow>
          (let (r, s') = cs_get_history c user session limit (cs_state c)
           in (r, CustomMemoryStorage (c\<lparr>cs_state := s'\<rparr>))))"

definition storage_clear_history ::
  "('s, 'j) custom_memory_storage MemoryStorage \<Rightarrow> string \<Rightarrow> string
     \<Rightarrow> (exn + bool) \<times> ('s, 'j) custom_memory_storage MemoryStorage" where
  "storage_clear_history st user session =
     (case st of
        MongoMemoryStorage m \<Rightarrow>
          (let (ok, m') = MongoMemoryStorage_clear_history m user session
           in (Inr ok, MongoMemoryStorage m'))
      | CustomMemoryStorage c \<Rightarrow>
          (let (r, s') = cs_clear_history c user session (cs_state c)
           in (r, CustomMemoryStorage (c\<lparr>cs_state := s'\<rparr>))))"

definition log_storage_log_request ::
  "('l, 'j) custom_log_storage LogConfig \<Rightarrow> (('l, 'j) custom_log_storage, 'j) LogStorage
     \<Rightarrow> string \<Rightarrow> string \<Rightarrow> 'j log_data
     \<Rightarrow> (exn + bool) \<times> (('l, 'j) custom_log_storage, 'j) LogStorage" where
  "log_storage_log_request config st user session request_data =
     (case st of
        MongoLogStorage m \<Rightarrow>
          (let (ok, m') = MongoLogStorage_log_request config m user session request_data
           in (Inr ok, MongoLogStorage m'))
      | CustomLogStorage c \<Rightarrow>
          (let (r, s') = cl_log_request c user session request_data (cl_state c)
           in (r, CustomLogStorage (c\<lparr>cl_state := s'\<rparr>))))"

definition log_storage_log_response ::
  "('l, 'j) custom_log_storage LogConfig \<Rightarrow> (('l, 'j) custom_log_storage, 'j) LogStorage
     \<Rightarrow> string \<Rightarrow> string \<Rightarrow> 'j log_data \<Rightarrow> string option
     \<Rightarrow> (exn + bool) \<times> (('l, 'j) custom_log_storage, 'j) LogStorage" where
  "log_storage_log_response config st user session response_data request_id =
     (case st of
        MongoLogStorage m \<Rightarrow>
          (let (ok, m') =
                 MongoLogStorage_log_response config m user session response_data request_id
           in (Inr ok, MongoLogStorage m'))
      | CustomLogStorage c \<Rightarrow>
          (let (r, s') = cl_log_response c user session response_data request_id (cl_state c)
           in (r, CustomLogStorage (c\<lparr>cl_state := s'\<rparr>))))"

definition log_storage_log_error ::
  "('l, 'j) custom_log_storage LogConfig \<Rightarrow> (('l, 'j) custom_log_storage, 'j) LogStorage
     \<Rightarrow> string \<Rightarrow> string \<Rightarrow> 'j log_data
     \<Rightarrow> (exn + bool) \<times> (('l, 'j) custom_log_storage, 'j) LogStorage" where
  "log_storage_log_error config st user session error_data =
     (case st of
        MongoLogStorage m \<Rightarrow>
          (let (ok, m') = MongoLogStorage_log_error config m user session error_data
           in (Inr ok, MongoLogStorage m'))
      | CustomLogStorage c \<Rightarrow>
          (let (r, s') = cl_log_error c user session error_data (cl_state c)
           in (r, CustomLogStorage (c\<lparr>cl_state := s'\<rparr>))))"

section \<open>The memory manager\<close>

text \<open>
  \<open>try: body except Exception as e: handler\<close>, over a state: the handler runs in the
  state the body left when it raised.
\<close>

definition try_except ::
  "(exn + 'a) \<times> 'st \<Rightarrow> (exn \<Rightarrow> 'st \<Rightarrow> (exn + 'a) \<times> 'st) \<Rightarrow> (exn + 'a) \<times> 'st" where
  "try_except body handler =
     (case body of (Inl e, s) \<Rightarrow> handler e s | (Inr v, s) \<Rightarrow> (Inr v, s))"

text \<open>
  The local cache is a \<open>TTLCache\<close> of the cachetools package, a mapping from cache keys
  to message lists: here the list of its entries. The class defines \<open>__len__\<close> and no
  \<open>__bool__\<close>, so the test \<open>if self._local_cache:\<close> succeeds exactly when the cache
  exists and holds an entry. Expiry and eviction only remove entries and are not
  modelled.
\<close>

type_synonym 'j TTLCache = "(string \<times> 'j ChatMessage list) list"

record ('s, 'j) MemoryManager =
  mm_config :: "('s, 'j) custom_memory_storage MemoryConfig"
  mm_storage :: "('s, 'j) custom_memory_storage MemoryStorage option"
  mm_local_cache :: "'j TTLCache option"

text \<open>
  The constructor; \<open>have_TTLCache\<close> tells whether the cachetools import succeeded.
\<close>

definition MemoryManager_init ::
  "bool \<Rightarrow> mem_doc MongoStorage \<Rightarrow> ('s, 'j) custom_memory_storage MemoryConfig
     \<Rightarrow> exn + ('s, 'j) MemoryManager" where
  "MemoryManager_init have_TTLCache srv config =
     (case create_memory_storage srv config of
        Inl e \<Rightarrow> Inl e
      | Inr storage \<Rightarrow>
          Inr \<lparr>mm_config = config, mm_storage = storage,
               mm_local_cache = (if have_TTLCache \<and> mc_enabled config then Some [] else None)\<rparr>)"

text \<open>\<open>f"{user_id}:{session_id}"\<close>; a field that is \<open>None\<close> prints as \<open>None\<close>.\<close>

definition fmt :: "string option \<Rightarrow> string" where
  "fmt x = (case x of None \<Rightarrow> ''None'' | Some s \<Rightarrow> s)"

definition cache_key :: "string \<Rightarrow> string \<Rightarrow> string" where
  "cache_key user session = user @ '':'' @ session"

text \<open>
  \<open>self._local_cache and cache_key in self._local_cache\<close>, giving the cached list on
  a hit.
\<close>

definition cache_hit :: "'j TTLCache option \<Rightarrow> string \<Rightarrow> 'j ChatMessage list option" where
  "cache_hit cache key =
     (case cache of None \<Rightarrow> None | Some kvs \<Rightarrow> if kvs \<noteq> [] then map_of kvs key else None)"

text \<open>
  \<open>if self._local_cache: if cache_key in self._local_cache:
  self._local_cache[cache_key].append(message)\<close>
\<close>

definition cache_append ::
  "'j TTLCache option \<Rightarrow> string \<Rightarrow> 'j ChatMessage \<Rightarrow> 'j TTLCache option" where
  "cache_append cache key message =
     (case cache of
        None \<Rightarrow> None
      | Some kvs \<Rightarrow>
          if kvs \<noteq> []
            then Some (map (\<lambda>(k, v). if k = key then (k, v @ [message]) else (k, v)) kvs)
          else Some kvs)"

text \<open>\<open>if self._local_cache: self._local_cache[cache_key] = messages\<close>\<close>

definition cache_store ::
  "'j TTLCache option \<Rightarrow> string \<Rightarrow> 'j ChatMessage list \<Rightarrow> 'j TTLCache option" where
  "cache_store cache key messages =
     (case cache of
        None \<Rightarrow> None
      | Some kvs \<Rightarrow>
          if kvs \<noteq> [] then Some ((key, messages) # filter (\<lambda>kv. fst kv \<noteq> key) kvs)
          else Some kvs)"

text \<open>
  \<open>if self._local_cache: if cache_key in self._local_cache:
  del self._local_cache[cache_key]\<close>
\<close>

definition cache_delete :: "'j TTLCache option \<Rightarrow> string \<Rightarrow> 'j TTLCache option" where
  "cache_delete cache key =
     (case cache of
        None \<Rightarrow> None
      | Some kvs \<Rightarrow> if kvs \<noteq> [] then Some (filter (\<lambda>kv. fst kv \<noteq> key) kvs) else Some kvs)"

text \<open>
  \<open>message.content if isinstance(message.content, str) else
  json.dumps(message.content)\<close>; \<open>json.dumps\<close> is the parameter \<open>dumps\<close>, which may
  raise.
\<close>

definition stored_content :: "('j \<Rightarrow> exn + string) \<Rightarrow> 'j content \<Rightarrow> exn + string" where
  "stored_content dumps c = (case c of Str s \<Rightarrow> Inr s | Obj j \<Rightarrow> dumps j)"

text \<open>
  \<open>MemoryManager.save_message\<close>. The guard \<open>if not self.storage: return\<close> that opens
  every method of both managers is modelled as the test of the field against \<open>None\<close>:
  a storage in that field was returned by the factory, so it is a built-in storage or a
  supplied instance that was true as a Python object, and it is taken to stay true.
\<close>

definition MemoryManager_save_message ::
  "('j \<Rightarrow> exn + string) \<Rightarrow> ('s, 'j) MemoryManager \<Rightarrow> 'j ChatMessage
     \<Rightarrow> (exn + unit) \<times> ('s, 'j) MemoryManager" where
  "MemoryManager_save_message dumps mm message =
     (case mm_storage mm of
        None \<Rightarrow> (Inr (), mm)
      | Some st \<Rightarrow>
          try_except
            (case stored_content dumps (cm_content message) of
               Inl e \<Rightarrow> (Inl e, mm)
             | Inr content' \<Rightarrow>
                 (let (r, st') = storage_save_message st (cm_user_id message)
                                   (cm_session_id message) (cm_role message) content'
                                   (cm_metadata message);
                      mm1 = mm\<lparr>mm_storage := Some st'\<rparr>
                  in case r of
                       Inl e \<Rightarrow> (Inl e, mm1)
                     | Inr _ \<Rightarrow>
                         (Inr (), mm1\<lparr>mm_local_cache :=
                            cache_append (mm_local_cache mm1)
                              (cache_key (fmt (cm_user_id message)) (fmt (cm_session_id message)))
                              message\<rparr>)))
            (\<lambda>e s. (Inr (), s)))"

text \<open>
  The loop of \<open>get_history\<close> over the dictionaries of the storage. \<open>json.loads\<close> is the
  parameter \<open>loads\<close>: on a string it gives the decoded value or raises, with
  \<open>JSONDecodeError\<close> for a text that is not JSON and with other exceptions besides
  (\<open>ValueError\<close> for an integer literal with too many digits, \<open>RecursionError\<close> for a
  text nested too deeply); on a content that is not a string it raises \<open>TypeError\<close>. The
  clause \<open>except (json.JSONDecodeError, TypeError): pass\<close> catches those two and leaves
  the content as it was; any other exception leaves the loop. A missing \<open>content\<close> or
  \<open>role\<close> key raises \<open>KeyError\<close>; a missing \<open>timestamp\<close> defaults to the reading
  \<open>now\<close> of the local clock and a missing \<open>metadata\<close> to the empty dictionary.
\<close>

definition caught_by_decode :: "exn \<Rightarrow> bool" where
  "caught_by_decode e = (exn_type e = ''JSONDecodeError'' \<or> exn_type e = ''TypeError'')"

fun decode_content ::
  "(string \<Rightarrow> exn + 'j content) \<Rightarrow> 'j content \<Rightarrow> exn + 'j content" where
  "decode_content loads (Str s) =
     (case loads s of
        Inr v \<Rightarrow> Inr v
      | Inl e \<Rightarrow> if caught_by_decode e then Inr (Str s) else Inl e)"
| "decode_content loads (Obj j) = Inr (Obj j)"

definition to_ChatMessage ::
  "(string \<Rightarrow> exn + 'j content) \<Rightarrow> int \<Rightarrow> string \<Rightarrow> string \<Rightarrow> 'j msg_data
     \<Rightarrow> exn + 'j ChatMessage" where
  "to_ChatMessage loads now user session msg =
     (case md_content msg of
        None \<Rightarrow> Inl (Exn ''KeyError'' ([CHR 0x27] @ ''content'' @ [CHR 0x27]))
      | Some c \<Rightarrow>
          (case decode_content loads c of
             Inl e \<Rightarrow> Inl e
           | Inr content' \<Rightarrow>
               (case md_role msg of
                  None \<Rightarrow> Inl (Exn ''KeyError'' ([CHR 0x27] @ ''role'' @ [CHR 0x27]))
                | Some r \<Rightarrow>
                    Inr \<lparr>cm_role = r, cm_content = content',
                         cm_timestamp = (case md_timestamp msg of Some t \<Rightarrow> t | None \<Rightarrow> now),
                         cm_user_id = Some user, cm_session_id = Some session,
                         cm_metadata = (case md_metadata msg of Some x \<Rightarrow> x | None \<Rightarrow> [])\<rparr>)))"

fun to_ChatMessages ::
  "(string \<Rightarrow> exn + 'j content) \<Rightarrow> int \<Rightarrow> string \<Rightarrow> string \<Rightarrow> 'j msg_data list
     \<Rightarrow> exn + 'j ChatMessage list" where
  "to_ChatMessages loads now user session [] = Inr []"
| "to_ChatMessages loads now user session (msg # rest) =
     (case to_ChatMessage loads now user session msg of
        Inl e \<Rightarrow> Inl e
      | Inr message \<Rightarrow>
          (case to_ChatMessages loads now user session rest of
             Inl e \<Rightarrow> Inl e
           | Inr messages \<Rightarrow> Inr (message # messages)))"

text \<open>
  \<open>cached_messages[-limit:]\<close> for \<open>limit \<noteq> 0\<close>: the last \<open>limit\<close> elements for a
  positive limit, and all but the first \<open>-limit\<close> for a negative one.
\<close>

definition slice_from_minus :: "int \<Rightarrow> 'a list \<Rightarrow> 'a list" where
  "slice_from_minus limit xs =
     (if limit > 0 then drop (length xs - nat limit) xs else drop (nat (- limit)) xs)"

definition MemoryManager_get_history ::
  "(string \<Rightarrow> exn + 'j content) \<Rightarrow> int \<Rightarrow> ('s, 'j) MemoryManager \<Rightarrow> string \<Rightarrow> string
     \<Rightarrow> int option \<Rightarrow> (exn + 'j ChatMessage list) \<times> ('s, 'j) MemoryManager" where
  "MemoryManager_get_history loads now mm user session limit =
     (case mm_storage mm of
        None \<Rightarrow> (Inr [], mm)
      | Some st \<Rightarrow>
          try_except
            (case cache_hit (mm_local_cache mm) (cache_key user session) of
               Some cached_messages \<Rightarrow>
                 (case truthy_limit limit of
                    Some l \<Rightarrow> (Inr (slice_from_minus l cached_messages), mm)
                  | None \<Rightarrow> (Inr cached_messages, mm))
             | None \<Rightarrow>
                 (let (r, st') = storage_get_history (mc_max_history_length (mm_config mm)) st
                                   user session limit;
                      mm1 = mm\<lparr>mm_storage := Some st'\<rparr>
                  in case r of
                       Inl e \<Rightarrow> (Inl e, mm1)
                     | Inr messages_data \<Rightarrow>
                         (case to_ChatMessages loads now user session messages_data of
                            Inl e \<Rightarrow> (Inl e, mm1)
                          | Inr messages \<Rightarrow>
                              (Inr messages, mm1\<lparr>mm_local_cache :=
                                 cache_store (mm_local_cache mm1) (cache_key user session)
                                   messages\<rparr>))))
            (\<lambda>e s. (Inr [], s)))"

definition MemoryManager_clear_history ::
  "('s, 'j) MemoryManager \<Rightarrow> string \<Rightarrow> string \<Rightarrow> (exn + unit) \<times> ('s, 'j) MemoryManager" where
  "MemoryManager_clear_history mm user session =
     (case mm_storage mm of
        None \<Rightarrow> (Inr (), mm)
      | Some st \<Rightarrow>
          try_except
            (let (r, st') = storage_clear_history st user session;
                 mm1 = mm\<lparr>mm_storage := Some st'\<rparr>
             in case r of
                  Inl e \<Rightarrow> (Inl e, mm1)
                | Inr _ \<Rightarrow>
                    (Inr (), mm1\<lparr>mm_local_cache :=
                       cache_delete (mm_local_cache mm1) (cache_key user session)\<rparr>))
            (\<lambda>e s. (Inr (), s)))"

section \<open>The log manager\<close>

record ('l, 'j) LogManager =
  lm_config :: "('l, 'j) custom_log_storage LogConfig"
  lm_storage :: "(('l, 'j) custom_log_storage, 'j) LogStorage option"

definition LogManager_init ::
  "'j log_doc MongoStorage \<Rightarrow> ('l, 'j) custom_log_storage LogConfig
     \<Rightarrow> exn + ('l, 'j) LogManager" where
  "LogManager_init srv config =
     (case create_log_storage srv config of
        Inl e \<Rightarrow> Inl e
      | Inr storage \<Rightarrow> Inr \<lparr>lm_config = config, lm_storage = storage\<rparr>)"

text \<open>
  \<open>x or d\<close> on an optional string: \<open>x\<close> unless it is \<open>None\<close> or empty. In
  \<open>request_id or str(uuid.uuid4())\<close> the default is the fresh identifier \<open>uuid4\<close>
  that the generator would give.
\<close>

definition or_default :: "string option \<Rightarrow> string \<Rightarrow> string" where
  "or_default x d = (case x of None \<Rightarrow> d | Some r \<Rightarrow> if r = [] then d else r)"

text \<open>The \<open>log_data\<close> dictionaries that \<open>log_request\<close> and \<open>log_response\<close> build.\<close>

definition request_log :: "string \<Rightarrow> 'j request_params \<Rightarrow> 'j log_data" where
  "request_log request_id request_data =
     RequestLog request_id (rp_model request_data) (rp_messages request_data)
       (rp_temperature request_data) (rp_max_tokens request_data) (rp_stream request_data)"

definition response_log :: "'j response_data \<Rightarrow> 'j log_data" where
  "response_log response_data =
     (case response_data of
        FullResponse r \<Rightarrow>
          ResponseLog (Some (rs_choices r)) (rs_usage r) (Some (rs_model r))
            (Some (rs_created r))
      | StreamResponse _ \<Rightarrow> ResponseLog None None None None)"

definition LogManager_log_request ::
  "string \<Rightarrow> ('l, 'j) LogManager \<Rightarrow> string \<Rightarrow> string \<Rightarrow> 'j request_params \<Rightarrow> string option
     \<Rightarrow> (exn + string) \<times> ('l, 'j) LogManager" where
  "LogManager_log_request uuid4 lm user session request_data request_id =
     (case lm_storage lm of
        None \<Rightarrow> (Inr (or_default request_id uuid4), lm)
      | Some st \<Rightarrow>
          (let request_id' = or_default request_id uuid4;
               (r, lm1) =
                 try_except
                   (let log_data = request_log request_id' request_data;
                        (r, st') = log_storage_log_request (lm_config lm) st user session log_data
                    in (case r of Inl e \<Rightarrow> Inl e | Inr _ \<Rightarrow> Inr (),
                        lm\<lparr>lm_storage := Some st'\<rparr>))
                   (\<lambda>e s. (Inr (), s))
           in (case r of Inl e \<Rightarrow> Inl e | Inr _ \<Rightarrow> Inr request_id', lm1)))"

definition LogManager_log_response ::
  "('l, 'j) LogManager \<Rightarrow> string \<Rightarrow> string \<Rightarrow> 'j response_data \<Rightarrow> string option
     \<Rightarrow> (exn + unit) \<times> ('l, 'j) LogManager" where
  "LogManager_log_response lm user session response_data request_id =
     (case lm_storage lm of
        None \<Rightarrow> (Inr (), lm)
      | Some st \<Rightarrow>
          try_except
            (let log_data = response_log response_data;
                 (r, st') = log_storage_log_response (lm_config lm) st user session log_data
                              request_id
             in (case r of Inl e \<Rightarrow> Inl e | Inr _ \<Rightarrow> Inr (), lm\<lparr>lm_storage := Some st'\<rparr>))
            (\<lambda>e s. (Inr (), s)))"

definition LogManager_log_error ::
  "('l, 'j) LogManager \<Rightarrow> string \<Rightarrow> string \<Rightarrow> 'j log_data
     \<Rightarrow> (exn + unit) \<times> ('l, 'j) LogManager" where
  "LogManager_log_error lm user session error_data =
     (case lm_storage lm of
        None \<Rightarrow> (Inr (), lm)
      | Some st \<Rightarrow>
          try_except
            (let (r, st') = log_storage_log_error (lm_config lm) st user session error_data
             in (case r of Inl e \<Rightarrow> Inl e | Inr _ \<Rightarrow> Inr (), lm\<lparr>lm_storage := Some st'\<rparr>))
            (\<lambda>e s. (Inr (), s)))"

section \<open>The client and the chat session\<close>

record ('s, 'l, 'j) QianwenConfig =
  cfg_model :: ModelConfig
  cfg_memory :: "('s, 'j) custom_memory_storage MemoryConfig"
  cfg_log :: "('l, 'j) custom_log_storage LogConfig"

record ('s, 'l, 'j) QianwenClient =
  qc_config :: "('s, 'l, 'j) QianwenConfig"
  memory_manager :: "('s, 'j) MemoryManager option"
  log_manager :: "('l, 'j) LogManager option"

record QianwenChat =
  ch_user_id :: string
  ch_session_id :: string
  ch_model :: string
  ch_temperature :: real
  ch_max_tokens :: int
  ch_system_message :: "string option"
  ch_search_enabled :: bool
  ch_memory_enabled :: bool

text \<open>
  \<open>QianwenClient.chat\<close>, that is the constructor of the session: \<open>user_id or
  "default_user"\<close>, and \<open>session_id\<close> or a name made from the clock, here
  \<open>default_session\<close>.
\<close>

definition QianwenClient_chat ::
  "string \<Rightarrow> ('s, 'l, 'j) QianwenClient \<Rightarrow> string option \<Rightarrow> string option \<Rightarrow> QianwenChat" where
  "QianwenClient_chat default_session client user_id session_id =
     \<lparr>ch_user_id = or_default user_id ''default_user'',
      ch_session_id = or_default session_id default_session,
      ch_model = default_model (cfg_model (qc_config client)),
      ch_temperature = default_temperature (cfg_model (qc_config client)),
      ch_max_tokens = default_max_tokens (cfg_model (qc_config client)),
      ch_system_message = default_system_message (cfg_model (qc_config client)),
      ch_search_enabled = False,
      ch_memory_enabled = mc_enabled (cfg_memory (qc_config client))\<rparr>"

text \<open>
  The chainable mutators. Each returns \<open>self\<close>: the session with one field changed.
\<close>

definition QianwenChat_model :: "QianwenChat \<Rightarrow> string \<Rightarrow> QianwenChat" where
  "QianwenChat_model c model_name = c\<lparr>ch_model := model_name\<rparr>"

definition QianwenChat_temperature :: "QianwenChat \<Rightarrow> real \<Rightarrow> QianwenChat" where
  "QianwenChat_temperature c temp = c\<lparr>ch_temperature := max 0 (min 1 temp)\<rparr>"

definition QianwenChat_max_tokens :: "QianwenChat \<Rightarrow> int \<Rightarrow> QianwenChat" where
  "QianwenChat_max_tokens c tokens = c\<lparr>ch_max_tokens := max 1 tokens\<rparr>"

definition QianwenChat_system :: "QianwenChat \<Rightarrow> string \<Rightarrow> QianwenChat" where
  "QianwenChat_system c message = c\<lparr>ch_system_message := Some message\<rparr>"

definition QianwenChat_search :: "QianwenChat \<Rightarrow> bool \<Rightarrow> QianwenChat" where
  "QianwenChat_search c enabled = c\<lparr>ch_search_enabled := enabled\<rparr>"

definition QianwenChat_memory :: "QianwenChat \<Rightarrow> bool \<Rightarrow> QianwenChat" where
  "QianwenChat_memory c enabled = c\<lparr>ch_memory_enabled := enabled\<rparr>"

definition QianwenChat_user :: "QianwenChat \<Rightarrow> string \<Rightarrow> QianwenChat" where
  "QianwenChat_user c user_id = c\<lparr>ch_user_id := user_id\<rparr>"

definition QianwenChat_session :: "QianwenChat \<Rightarrow> string \<Rightarrow> QianwenChat" where
  "QianwenChat_session c session_id = c\<lparr>ch_session_id := session_id\<rparr>"

text \<open>
  What a call reads from outside the program: the JSON codec, one reading of the local
  clock (it stamps the messages built during the call, and no storage reads the stamp),
  the identifier generator, and the chat API. \<open>completions_create\<close> answers a request
  with a response or raises; \<open>completions_create_stream\<close> raises, or gives the chunks
  the stream yields and the exception that ends it, if one does.
\<close>

record 'j env =
  json_loads :: "string \<Rightarrow> exn + 'j content"
  json_dumps :: "'j \<Rightarrow> exn + string"
  datetime_now :: int
  uuid_uuid4 :: string
  completions_create :: "'j request_params \<Rightarrow> exn + 'j response"
  completions_create_stream :: "'j request_params \<Rightarrow> exn + chunk list \<times> exn option"

text \<open>\<open>QianwenChat._build_messages\<close>; \<open>if self._system_message:\<close> fails on \<open>None\<close> and on
  the empty string.\<close>

definition QianwenChat_build_messages ::
  "'j env \<Rightarrow> ('s, 'l, 'j) QianwenClient \<Rightarrow> QianwenChat \<Rightarrow> string
     \<Rightarrow> (exn + 'j api_message list) \<times> ('s, 'l, 'j) QianwenClient" where
  "QianwenChat_build_messages env client c message =
     (let messages = (case ch_system_message c of
                        None \<Rightarrow> []
                      | Some s \<Rightarrow> if s = [] then [] else [(''system'', Str s)])
      in case (if ch_memory_enabled c then memory_manager client else None) of
           None \<Rightarrow> (Inr (messages @ [(''user'', Str message)]), client)
         | Some mm \<Rightarrow>
             (let (r, mm') = MemoryManager_get_history (json_loads env) (datetime_now env) mm
                               (ch_user_id c) (ch_session_id c)
                               (Some (mc_max_history_length (cfg_memory (qc_config client))));
                  client' = client\<lparr>memory_manager := Some mm'\<rparr>
              in case r of
                   Inl e \<Rightarrow> (Inl e, client')
                 | Inr history \<Rightarrow>
                     (Inr (messages @ map (\<lambda>msg. (cm_role msg, cm_content msg)) history
                             @ [(''user'', Str message)]),
                      client')))"

text \<open>
  The calls a session makes on the managers of its client, each guarded as in the
  source by \<open>if self.client.log_manager:\<close> or \<open>self.client.memory_manager\<close>.
\<close>

definition chat_log_request ::
  "'j env \<Rightarrow> ('s, 'l, 'j) QianwenClient \<Rightarrow> QianwenChat \<Rightarrow> 'j request_params
     \<Rightarrow> (exn + string option) \<times> ('s, 'l, 'j) QianwenClient" where
  "chat_log_request env client c request_params =
     (case log_manager client of
        None \<Rightarrow> (Inr None, client)
      | Some lm \<Rightarrow>
          (let (r, lm') = LogManager_log_request (uuid_uuid4 env) lm (ch_user_id c)
                            (ch_session_id c) request_params None
           in (case r of Inl e \<Rightarrow> Inl e | Inr request_id \<Rightarrow> Inr (Some request_id),
               client\<lparr>log_manager := Some lm'\<rparr>)))"

definition chat_log_response ::
  "('s, 'l, 'j) QianwenClient \<Rightarrow> QianwenChat \<Rightarrow> 'j response_data \<Rightarrow> string option
     \<Rightarrow> (exn + unit) \<times> ('s, 'l, 'j) QianwenClient" where
  "chat_log_response client c response_data request_id =
     (case log_manager client of
        None \<Rightarrow> (Inr (), client)
      | Some lm \<Rightarrow>
          (let (r, lm') = LogManager_log_response lm (ch_user_id c) (ch_session_id c)
                            response_data request_id
           in (r, client\<lparr>log_manager := Some lm'\<rparr>)))"

definition chat_log_error ::
  "('s, 'l, 'j) QianwenClient \<Rightarrow> QianwenChat \<Rightarrow> 'j log_data
     \<Rightarrow> (exn + unit) \<times> ('s, 'l, 'j) QianwenClient" where
  "chat_log_error client c error_data =
     (case log_manager client of
        None \<Rightarrow> (Inr (), client)
      | Some lm \<Rightarrow>
          (let (r, lm') = LogManager_log_error lm (ch_user_id c) (ch_session_id c) error_data
           in (r, client\<lparr>log_manager := Some lm'\<rparr>)))"

definition new_message :: "'j env \<Rightarrow> QianwenChat \<Rightarrow> string \<Rightarrow> 'j content \<Rightarrow> 'j ChatMessage" where
  "new_message env c role content' =
     \<lparr>cm_role = role, cm_content = content', cm_timestamp = datetime_now env,
      cm_user_id = Some (ch_user_id c), cm_session_id = Some (ch_session_id c),
      cm_metadata = []\<rparr>"

definition chat_save_message ::
  "'j env \<Rightarrow> ('s, 'l, 'j) QianwenClient \<Rightarrow> 'j ChatMessage
     \<Rightarrow> (exn + unit) \<times> ('s, 'l, 'j) QianwenClient" where
  "chat_save_message env client message =
     (case memory_manager client of
        None \<Rightarrow> (Inr (), client)
      | Some mm \<Rightarrow>
          (let (r, mm') = MemoryManager_save_message (json_dumps env) mm message
           in (r, client\<lparr>memory_manager := Some mm'\<rparr>)))"

text \<open>\<open>self._memory_enabled and self.client.memory_manager\<close>\<close>

definition memory_on :: "('s, 'l, 'j) QianwenClient \<Rightarrow> QianwenChat \<Rightarrow> bool" where
  "memory_on client c = (ch_memory_enabled c \<and> memory_manager client \<noteq> None)"

text \<open>Sequencing of two steps: the second runs only when the first did not raise.\<close>

definition and_then ::
  "(exn + 'a) \<times> 'st \<Rightarrow> ('a \<Rightarrow> 'st \<Rightarrow> (exn + 'b) \<times> 'st) \<Rightarrow> (exn + 'b) \<times> 'st" where
  "and_then step rest = (case step of (Inl e, s) \<Rightarrow> (Inl e, s) | (Inr v, s) \<Rightarrow> rest v s)"

definition msg_api_failed :: string where
  "msg_api_failed = ''API'' @ [CHR 0xE8, CHR 0xB0, CHR 0x83, CHR 0xE7, CHR 0x94, CHR 0xA8,
     CHR 0xE5, CHR 0xA4, CHR 0xB1, CHR 0xE8, CHR 0xB4, CHR 0xA5] @ '': ''"

definition msg_stream_failed :: string where
  "msg_stream_failed = [CHR 0xE6, CHR 0xB5, CHR 0x81, CHR 0xE5, CHR 0xBC, CHR 0x8F]
     @ msg_api_failed"

text \<open>
  The \<open>except Exception as e\<close> clause of \<open>ask\<close> and of \<open>stream\<close>: an error log entry
  with the request parameters when they are already bound, then the wrapped error.
\<close>

definition chat_except ::
  "string \<Rightarrow> ('s, 'l, 'j) QianwenClient \<Rightarrow> QianwenChat \<Rightarrow> 'j request_params option \<Rightarrow> exn
     \<Rightarrow> (exn + 'a) \<times> ('s, 'l, 'j) QianwenClient" where
  "chat_except prefix client c request_params e =
     (case chat_log_error client c (ErrorLog (exn_type e) (exn_message e) request_params) of
        (Inl e', client') \<Rightarrow> (Inl e', client')
      | (Inr _, client') \<Rightarrow> (Inl (Exn ''QianwenAPIError'' (prefix @ exn_message e)), client'))"

text \<open>
  The part of \<open>ask\<close> after the response has arrived: the response log entry, then, with
  memory enabled, the user message and, if the response has a choice, the content of
  its first choice as the assistant message. Reading that content,
  \<open>response_dict['choices'][0]['message']['content']\<close>, comes after the user message is
  saved and may raise.
\<close>

definition ask_record ::
  "'j env \<Rightarrow> ('s, 'l, 'j) QianwenClient \<Rightarrow> QianwenChat \<Rightarrow> string \<Rightarrow> string option
     \<Rightarrow> 'j response \<Rightarrow> (exn + 'j response) \<times> ('s, 'l, 'j) QianwenClient" where
  "ask_record env client c message request_id response =
     and_then (chat_log_response client c (FullResponse response) request_id)
       (\<lambda>_ client1.
          if memory_on client1 c
            then and_then (chat_save_message env client1
                             (new_message env c ''user'' (Str message)))
                   (\<lambda>_ client2.
                      case rs_choices response of
                        [] \<Rightarrow> (Inr response, client2)
                      | first # _ \<Rightarrow>
                          and_then (choice_content first, client2)
                            (\<lambda>assistant_content client2'.
                               and_then (chat_save_message env client2'
                                           (new_message env c ''assistant'' assistant_content))
                                 (\<lambda>_ client3. (Inr response, client3))))
          else (Inr response, client1))"

definition QianwenChat_ask ::
  "'j env \<Rightarrow> ('s, 'l, 'j) QianwenClient \<Rightarrow> QianwenChat \<Rightarrow> string
     \<Rightarrow> (exn + 'j response) \<times> ('s, 'l, 'j) QianwenClient" where
  "QianwenChat_ask env client c message =
     (case QianwenChat_build_messages env client c message of
        (Inl e, client1) \<Rightarrow> chat_except msg_api_failed client1 c None e
      | (Inr messages, client1) \<Rightarrow>
          (let request_params =
                 \<lparr>rp_model = ch_model c, rp_messages = messages,
                  rp_temperature = ch_temperature c, rp_max_tokens = ch_max_tokens c,
                  rp_stream = False, rp_tools = ch_search_enabled c,
                  rp_stream_options = False\<rparr>
           in try_except
                (and_then (chat_log_request env client1 c request_params)
                   (\<lambda>request_id client2.
                      case completions_create env request_params of
                        Inl e \<Rightarrow> (Inl e, client2)
                      | Inr response \<Rightarrow> ask_record env client2 c message request_id response))
                (\<lambda>e client'. chat_except msg_api_failed client' c (Some request_params) e)))"

section \<open>Streaming\<close>

text \<open>
  The content fragment of a chunk: \<open>chunk.choices[0].delta.content\<close> when the chunk
  has a choice and that content is neither \<open>None\<close> nor empty, and nothing otherwise.
  \<open>accumulate\<close> is the loop \<open>full_content += ...\<close> over the chunks.
\<close>

definition fragment :: "chunk \<Rightarrow> string" where
  "fragment ck =
     (case ck_choices ck of [] \<Rightarrow> [] | d # _ \<Rightarrow> (case d of None \<Rightarrow> [] | Some s \<Rightarrow> s))"

fun accumulate :: "string \<Rightarrow> chunk list \<Rightarrow> string" where
  "accumulate full_content [] = full_content"
| "accumulate full_content (ck # rest) = accumulate (full_content @ fragment ck) rest"

text \<open>
  The call that opens the stream: first with \<open>stream_options\<close>, and once more without
  it when that raises \<open>TypeError\<close>. The result comes with the request parameters as
  they are bound afterwards.
\<close>

definition open_stream ::
  "'j env \<Rightarrow> 'j request_params \<Rightarrow> 'j request_params \<times> (exn + chunk list \<times> exn option)" where
  "open_stream env request_params =
     (let with_options = request_params\<lparr>rp_stream_options := True\<rparr>
      in case completions_create_stream env with_options of
           Inr stream \<Rightarrow> (with_options, Inr stream)
         | Inl e \<Rightarrow>
             if exn_type e = ''TypeError''
               then (request_params\<lparr>rp_stream_options := False\<rparr>,
                     completions_create_stream env (request_params\<lparr>rp_stream_options := False\<rparr>))
             else (with_options, Inl e))"

text \<open>
  The part of \<open>stream\<close> after the last chunk: the two messages, only when some content
  was collected, then the response log entry.
\<close>

definition stream_record ::
  "'j env \<Rightarrow> ('s, 'l, 'j) QianwenClient \<Rightarrow> QianwenChat \<Rightarrow> string \<Rightarrow> string option \<Rightarrow> string
     \<Rightarrow> (exn + unit) \<times> ('s, 'l, 'j) QianwenClient" where
  "stream_record env client c message request_id full_content =
     and_then
       (if memory_on client c \<and> full_content \<noteq> []
          then and_then (chat_save_message env client
                           (new_message env c ''user'' (Str message)))
                 (\<lambda>_ client1.
                    chat_save_message env client1
                      (new_message env c ''assistant'' (Str full_content)))
        else (Inr (), client))
       (\<lambda>_ client2. chat_log_response client2 c (StreamResponse full_content) request_id)"

text \<open>
  \<open>QianwenChat.stream\<close>, consumed to its end: the chunks it yields to the caller, in
  order, and how it ends. A stream that raises after some chunks has yielded them.
\<close>

definition QianwenChat_stream ::
  "'j env \<Rightarrow> ('s, 'l, 'j) QianwenClient \<Rightarrow> QianwenChat \<Rightarrow> string
     \<Rightarrow> chunk list \<times> (exn + unit) \<times> ('s, 'l, 'j) QianwenClient" where
  "QianwenChat_stream env client c message =
     (case QianwenChat_build_messages env client c message of
        (Inl e, client1) \<Rightarrow> ([], chat_except msg_stream_failed client1 c None e)
      | (Inr messages, client1) \<Rightarrow>
          (let request_params =
                 \<lparr>rp_model = ch_model c, rp_messages = messages,
                  rp_temperature = ch_temperature c, rp_max_tokens = ch_max_tokens c,
                  rp_stream = True, rp_tools = ch_search_enabled c,
                  rp_stream_options = False\<rparr>
           in case chat_log_request env client1 c request_params of
                (Inl e, client2) \<Rightarrow>
                  ([], chat_except msg_stream_failed client2 c (Some request_params) e)
              | (Inr request_id, client2) \<Rightarrow>
                  (case open_stream env request_params of
                     (request_params', Inl e) \<Rightarrow>
                       ([], chat_except msg_stream_failed client2 c (Some request_params') e)
                   | (request_params', Inr (chunks, Some e)) \<Rightarrow>
                       (chunks,
                        chat_except msg_stream_failed client2 c (Some request_params') e)
                   | (request_params', Inr (chunks, None)) \<Rightarrow>
                       (chunks,
                        try_except
                          (stream_record env client2 c message request_id
                             (accumulate [] chunks))
                          (\<lambda>e client'.
                             chat_except msg_stream_failed client' c (Some request_params')
                               e)))))"

section \<open>Observations\<close>

text \<open>
  What the properties below observe: the list a history read returns (empty if the read
  raised), the built-in storage behind a manager or a client, if it has one, and the
  documents in it. A stored content is \<open>readable\<close> when decoding it raises nothing
  that leaves the loop of \<open>get_history\<close>, \<open>decoded\<close> is the content the loop then
  gives it (the decoded value, or the string itself when it is not JSON), and
  \<open>doc_message\<close> is the message the loop builds from a stored document. \<open>cache_empty\<close>
  says that the local cache is absent or holds no entry.
\<close>

definition history_of :: "(exn + 'a list) \<times> 'st \<Rightarrow> 'a list" where
  "history_of r = (case fst r of Inr messages \<Rightarrow> messages | Inl _ \<Rightarrow> [])"

definition mm_mongo :: "('s, 'j) MemoryManager \<Rightarrow> mem_doc MongoStorage option" where
  "mm_mongo mm = (case mm_storage mm of Some (MongoMemoryStorage m) \<Rightarrow> Some m | _ \<Rightarrow> None)"

definition mongo_of :: "('s, 'l, 'j) QianwenClient \<Rightarrow> mem_doc MongoStorage option" where
  "mongo_of client = (case memory_manager client of Some mm \<Rightarrow> mm_mongo mm | None \<Rightarrow> None)"

definition memory_docs :: "('s, 'l, 'j) QianwenClient \<Rightarrow> mem_doc list" where
  "memory_docs client = (case mongo_of client of Some m \<Rightarrow> ms_docs m | None \<Rightarrow> [])"

text \<open>
  The document that the built-in storage writes for a message of session \<open>c\<close> with the
  given role and stored content, when its clock reads \<open>t\<close>.
\<close>

definition turn_doc :: "QianwenChat \<Rightarrow> string \<Rightarrow> string \<Rightarrow> int \<Rightarrow> mem_doc" where
  "turn_doc c role content' t =
     \<lparr>d_user_id = Some (ch_user_id c), d_session_id = Some (ch_session_id c), d_role = role,
      d_content = content', d_metadata = [], d_timestamp = t\<rparr>"

definition readable :: "(string \<Rightarrow> exn + 'j content) \<Rightarrow> string \<Rightarrow> bool" where
  "readable loads s = (case loads s of Inr _ \<Rightarrow> True | Inl e \<Rightarrow> caught_by_decode e)"

definition decoded :: "(string \<Rightarrow> exn + 'j content) \<Rightarrow> string \<Rightarrow> 'j content" where
  "decoded loads s = (case loads s of Inr v \<Rightarrow> v | Inl _ \<Rightarrow> Str s)"

definition doc_message ::
  "(string \<Rightarrow> exn + 'j content) \<Rightarrow> string \<Rightarrow> string \<Rightarrow> mem_doc \<Rightarrow> 'j ChatMessage" where
  "doc_message loads user session doc =
     \<lparr>cm_role = d_role doc, cm_content = decoded loads (d_content doc),
      cm_timestamp = d_timestamp doc, cm_user_id = Some user, cm_session_id = Some session,
      cm_metadata = d_metadata doc\<rparr>"

text \<open>
  The documents a read of the built-in storage selects: those of the session, sorted by
  timestamp, then limited.
\<close>

definition selected :: "int \<Rightarrow> mem_doc MongoStorage \<Rightarrow> string \<Rightarrow> string \<Rightarrow> int option \<Rightarrow> mem_doc list" where
  "selected max_history_length m user session limit =
     apply_limit max_history_length limit
       (sort_key d_timestamp
          (filter (\<lambda>d. d_user_id d = Some user \<and> d_session_id d = Some session) (ms_docs m)))"

definition cache_empty :: "('s, 'j) MemoryManager \<Rightarrow> bool" where
  "cache_empty mm = (mm_local_cache mm = None \<or> mm_local_cache mm = Some [])"

text \<open>
  The effective limit in the words of the specification: the explicit limit argument if
  given, else the configured default history length.
\<close>

definition spec_effective_limit :: "int option \<Rightarrow> int \<Rightarrow> int" where
  "spec_effective_limit limit max_history_length =
     (case limit of Some l \<Rightarrow> l | None \<Rightarrow> max_history_length)"

section \<open>Sequences of mutator calls\<close>

text \<open>
  A chain \<open>chat.model(..).temperature(..).search(..)\<close> is a list of calls applied from
  left to right to the same session.
\<close>

datatype mutator = Model string | Temperature real | Max_tokens int | System string
  | Search bool | Memory bool | User string | Session string

fun call :: "QianwenChat \<Rightarrow> mutator \<Rightarrow> QianwenChat" where
  "call c (Model x) = QianwenChat_model c x"
| "call c (Temperature x) = QianwenChat_temperature c x"
| "call c (Max_tokens x) = QianwenChat_max_tokens c x"
| "call c (System x) = QianwenChat_system c x"
| "call c (Search x) = QianwenChat_search c x"
| "call c (Memory x) = QianwenChat_memory c x"
| "call c (User x) = QianwenChat_user c x"
| "call c (Session x) = QianwenChat_session c x"

section \<open>Example values\<close>

text \<open>
  A session as \<open>client.chat("u", "s")\<close> gives it under the default model
  configuration, and a server-side collection that is empty and reachable, whose clock
  reads \<open>0, 1, 2, ...\<close>.
\<close>

definition chat0 :: QianwenChat where
  "chat0 = \<lparr>ch_user_id = ''u'', ch_session_id = ''s'', ch_model = ''qwen-plus'',
     ch_temperature = 0.7, ch_max_tokens = 2000, ch_system_message = None,
     ch_search_enabled = False, ch_memory_enabled = True\<rparr>"

definition srv0 :: "'d MongoStorage" where
  "srv0 = \<lparr>ms_connected = False, ms_docs = [], ms_up = True, ms_utcnow = int, ms_reads = 0\<rparr>"

text \<open>
  A caller-supplied memory storage and a caller-supplied log storage whose every method
  raises, as a storage does whose backend cannot be reached.
\<close>

definition unreachable :: exn where
  "unreachable = Exn ''ConnectionError'' ''backend unreachable''"

definition failing_memory_storage :: "(unit, 'j) custom_memory_storage" where
  "failing_memory_storage =
     \<lparr>cs_save_message = (\<lambda>user session role content' meta st. (Inl unreachable, st)),
      cs_get_history = (\<lambda>user session limit st. (Inl unreachable, st)),
      cs_clear_history = (\<lambda>user session st. (Inl unreachable, st)),
      cs_state = ()\<rparr>"

definition failing_log_storage :: "(unit, 'j) custom_log_storage" where
  "failing_log_storage =
     \<lparr>cl_log_request = (\<lambda>user session data' st. (Inl unreachable, st)),
      cl_log_response = (\<lambda>user session data' request_id st. (Inl unreachable, st)),
      cl_log_error = (\<lambda>user session data' st. (Inl unreachable, st)),
      cl_state = ()\<rparr>"

text \<open>
  \<open>FileLogStorage\<close> of \<open>config_examples.py\<close>, the custom log storage the repository
  ships as an example: each method appends one entry to a log file and tests no flag.
  The state is the list of the entries written, each with its log type and request id.
\<close>

type_synonym 'j file_log = "(string \<times> string \<times> string \<times> 'j log_data \<times> string option) list"

definition FileLogStorage :: "('j file_log, 'j) custom_log_storage" where
  "FileLogStorage =
     \<lparr>cl_log_request = (\<lambda>user session data' file.
         (Inr True, file @ [(''request'', user, session, data', None)])),
      cl_log_response = (\<lambda>user session data' request_id file.
         (Inr True, file @ [(''response'', user, session, data', request_id)])),
      cl_log_error = (\<lambda>user session data' file.
         (Inr True, file @ [(''error'', user, session, data', None)])),
      cl_state = []\<rparr>"

definition memory_config0 :: "'c MemoryConfig" where
  "memory_config0 = \<lparr>mc_enabled = True, mc_storage_type = ''mongodb'',
     mc_max_history_length = 10, mc_custom_storage = None\<rparr>"

definition log_config0 :: "'c LogConfig" where
  "log_config0 = \<lparr>lc_enabled = True, lc_storage_type = ''mongodb'', lc_log_requests = True,
     lc_log_responses = True, lc_log_errors = True, lc_custom_storage = None\<rparr>"

definition request0 :: "'j request_params" where
  "request0 = \<lparr>rp_model = ''qwen-plus'', rp_messages = [(''user'', Str ''hi'')],
     rp_temperature = 0.7, rp_max_tokens = 2000, rp_stream = False, rp_tools = False,
     rp_stream_options = False\<rparr>"

definition log_file :: "('j file_log, 'j) LogManager \<Rightarrow> 'j file_log" where
  "log_file lm = (case lm_storage lm of Some (CustomLogStorage c) \<Rightarrow> cl_state c | _ \<Rightarrow> [])"

text \<open>
  A JSON codec for examples whose only contents besides strings are integers:
  \<open>int_dumps\<close> writes an integer in decimal, and \<open>int_loads\<close> decodes a text that is an
  integer literal of JSON (an optional minus sign, then \<open>0\<close> or digits with no leading zero)
  and, like \<open>json.loads\<close> on a text that is not JSON, raises \<open>JSONDecodeError\<close> on the
  other texts the examples use.
\<close>

fun show_nat :: "nat \<Rightarrow> string" where
  "show_nat n =
     (if n < 10 then [''0123456789'' ! n]
      else show_nat (n div 10) @ [''0123456789'' ! (n mod 10)])"

definition int_dumps :: "int \<Rightarrow> exn + string" where
  "int_dumps i = Inr (if i < 0 then CHR ''-'' # show_nat (nat (- i)) else show_nat (nat i))"

fun parse_digits :: "nat \<Rightarrow> string \<Rightarrow> nat option" where
  "parse_digits acc [] = Some acc"
| "parse_digits acc (c # cs) =
     (if 48 \<le> (of_char c :: nat) \<and> (of_char c :: nat) \<le> 57
        then parse_digits (acc * 10 + (of_char c - 48)) cs
      else None)"

definition nat_literal :: "string \<Rightarrow> nat option" where
  "nat_literal s =
     (case s of
        [] \<Rightarrow> None
      | c # cs \<Rightarrow> if c = CHR ''0'' \<and> cs \<noteq> [] then None else parse_digits 0 s)"

definition not_json :: exn where
  "not_json = Exn ''JSONDecodeError'' ''Expecting value''"

definition int_loads :: "string \<Rightarrow> exn + int content" where
  "int_loads s =
     (case s of
        [] \<Rightarrow> Inl not_json
      | c # cs \<Rightarrow>
          (case (if c = CHR ''-'' then map_option uminus (map_option int (nat_literal cs))
                 else map_option int (nat_literal s)) of
             None \<Rightarrow> Inl not_json
           | Some i \<Rightarrow> Inr (Obj i)))"

text \<open>
  Managers as the constructors build them over a caller-supplied storage: one over the
  storage that always raises, one over \<open>FileLogStorage\<close> with request logging switched
  off in the configuration.
\<close>

definition failing_memory_manager :: "(unit, 'j) MemoryManager" where
  "failing_memory_manager =
     \<lparr>mm_config = memory_config0\<lparr>mc_custom_storage := Some \<lparr>si_object = failing_memory_storage, si_truth = True\<rparr>\<rparr>,
      mm_storage = Some (CustomMemoryStorage failing_memory_storage),
      mm_local_cache = Some []\<rparr>"

definition failing_log_manager :: "(unit, 'j) LogManager" where
  "failing_log_manager =
     \<lparr>lm_config = log_config0\<lparr>lc_custom_storage := Some \<lparr>si_object = failing_log_storage, si_truth = True\<rparr>\<rparr>,
      lm_storage = Some (CustomLogStorage failing_log_storage)\<rparr>"

definition file_log_manager :: "('j file_log, 'j) LogManager" where
  "file_log_manager =
     \<lparr>lm_config = log_config0\<lparr>lc_log_requests := False, lc_log_responses := False,
                    lc_log_errors := False,
                    lc_custom_storage := Some \<lparr>si_object = FileLogStorage, si_truth = True\<rparr>\<rparr>,
      lm_storage = Some (CustomLogStorage FileLogStorage)\<rparr>"

definition message0 :: "int ChatMessage" where
  "message0 = \<lparr>cm_role = ''user'', cm_content = Str ''hi'', cm_timestamp = 0,
     cm_user_id = Some ''u'', cm_session_id = Some ''s'', cm_metadata = []\<rparr>"

text \<open>
  A log manager over the built-in storage, connected, with the three kinds of entry
  switched off, and a memory configuration with memory disabled.
\<close>

definition quiet_log_manager :: "('l, 'j) LogManager" where
  "quiet_log_manager =
     \<lparr>lm_config = log_config0\<lparr>lc_log_requests := False, lc_log_responses := False,
                    lc_log_errors := False\<rparr>,
      lm_storage = Some (MongoLogStorage (srv0\<lparr>ms_connected := True\<rparr>))\<rparr>"

definition memory_disabled :: "'c MemoryConfig" where
  "memory_disabled = memory_config0\<lparr>mc_enabled := False\<rparr>"

text \<open>
  A stored document of session \<open>("u", "s")\<close>, and a manager over the built-in storage,
  connected and reachable, that holds the given documents, under a given
  \<open>max_history_length\<close>; its cache is as the constructor leaves it. The clock of the
  storage reads \<open>100, 101, ...\<close>.
\<close>

definition turn :: "string \<Rightarrow> string \<Rightarrow> int \<Rightarrow> mem_doc" where
  "turn role content' t =
     \<lparr>d_user_id = Some ''u'', d_session_id = Some ''s'', d_role = role, d_content = content',
      d_metadata = [], d_timestamp = t\<rparr>"

definition mongo_with :: "mem_doc list \<Rightarrow> mem_doc MongoStorage" where
  "mongo_with docs =
     \<lparr>ms_connected = True, ms_docs = docs, ms_up = True, ms_utcnow = (\<lambda>k. 100 + int k),
      ms_reads = 0\<rparr>"

definition mongo_manager :: "mem_doc list \<Rightarrow> int \<Rightarrow> ('s, 'j) MemoryManager" where
  "mongo_manager docs n =
     \<lparr>mm_config = memory_config0\<lparr>mc_max_history_length := n\<rparr>,
      mm_storage = Some (MongoMemoryStorage (mongo_with docs)),
      mm_local_cache = Some []\<rparr>"

definition three_turns :: "mem_doc list" where
  "three_turns = [turn ''user'' ''t1'' 1, turn ''assistant'' ''t2'' 2, turn ''user'' ''t3'' 3]"


text \<open>
  A client as \<open>initialize\<close> leaves it with logging disabled, over a given memory
  manager; a response with the given string contents, one per choice; a chunk with one
  choice; and an environment whose API answers every request with the given response, or
  with a stream of the given chunks that ends normally.
\<close>

definition model_config0 :: ModelConfig where
  "model_config0 = \<lparr>default_model = ''qwen-plus'', default_temperature = 0.7,
     default_max_tokens = 2000, default_system_message = None\<rparr>"

definition client_over :: "('s, int) MemoryManager \<Rightarrow> ('s, 'l, int) QianwenClient" where
  "client_over mm =
     \<lparr>qc_config = \<lparr>cfg_model = model_config0, cfg_memory = mm_config mm,
                   cfg_log = log_config0\<lparr>lc_enabled := False\<rparr>\<rparr>,
      memory_manager = Some mm, log_manager = None\<rparr>"

definition reply :: "string list \<Rightarrow> int response" where
  "reply contents = \<lparr>rs_choices = map (\<lambda>s. Choice (Str s)) contents, rs_usage = None, rs_model = ''qwen-plus'',
     rs_created = 0\<rparr>"

definition delta :: "string \<Rightarrow> chunk" where
  "delta s = \<lparr>ck_choices = [Some s]\<rparr>"

definition api :: "int response \<Rightarrow> chunk list \<Rightarrow> int env" where
  "api response chunks =
     \<lparr>json_loads = int_loads, json_dumps = int_dumps, datetime_now = 50, uuid_uuid4 = ''id-1'',
      completions_create = (\<lambda>request_params. Inr response),
      completions_create_stream = (\<lambda>request_params. Inr (chunks, None))\<rparr>"

text \<open>An environment whose API raises on every call.\<close>

definition api_down :: "int env" where
  "api_down =
     \<lparr>json_loads = int_loads, json_dumps = int_dumps, datetime_now = 50, uuid_uuid4 = ''id-1'',
      completions_create = (\<lambda>request_params. Inl (Exn ''APIConnectionError'' ''no route'')),
      completions_create_stream =
        (\<lambda>request_params. Inl (Exn ''APIConnectionError'' ''no route''))\<rparr>"

text \<open>
  A response whose only choice has no \<open>content\<close> key in its message, and a collection
  that already holds a message of the session which is not JSON.
\<close>

definition broken_reply :: "int response" where
  "broken_reply = \<lparr>rs_choices = [Broken (Exn ''KeyError'' ([CHR 0x27] @ ''content'' @ [CHR 0x27]))],
     rs_usage = None, rs_model = ''qwen-plus'', rs_created = 0\<rparr>"


section \<open>The temperature mutator\<close>

lemmas mutator_defs = QianwenChat_model_def QianwenChat_temperature_def
  QianwenChat_max_tokens_def QianwenChat_system_def QianwenChat_search_def
  QianwenChat_memory_def QianwenChat_user_def QianwenChat_session_def

lemma call_keeps_unit_interval:
  "0 \<le> ch_temperature c \<and> ch_temperature c \<le> 1
     \<Longrightarrow> 0 \<le> ch_temperature (call c m) \<and> ch_temperature (call c m) \<le> 1"
  by (cases m) (simp_all add: mutator_defs)

lemma calls_keep_unit_interval:
  "0 \<le> ch_temperature c \<and> ch_temperature c \<le> 1
     \<Longrightarrow> 0 \<le> ch_temperature (foldl call c ms) \<and> ch_temperature (foldl call c ms) \<le> 1"
proof (induction ms arbitrary: c)
  case Nil
  then show ?case by simp
next
  case (Cons m ms)
  from Cons.prems have "0 \<le> ch_temperature (call c m) \<and> ch_temperature (call c m) \<le> 1"
    by (rule call_keeps_unit_interval)
  then show ?case using Cons.IH by simp
qed

text \<open>
  C9. \<open>temperature(t)\<close> sets the effective temperature to \<open>t\<close> clamped to \<open>[0, 1]\<close>:
  \<open>0\<close> below the interval, \<open>1\<close> above it, \<open>t\<close> itself inside. After the call the effective
  temperature lies in \<open>[0, 1]\<close>, and it stays there under any further chain of mutator
  calls. The comparisons of \<open>max\<close> and \<open>min\<close> are exact on floating-point numbers, so
  the values are taken as the reals they denote.
\<close>

theorem temperature_clamps:
  "ch_temperature (QianwenChat_temperature c t) = (if t < 0 then 0 else if 1 < t then 1 else t)
   \<and> 0 \<le> ch_temperature (foldl call (QianwenChat_temperature c t) ms)
   \<and> ch_temperature (foldl call (QianwenChat_temperature c t) ms) \<le> 1"
proof -
  have eq: "ch_temperature (QianwenChat_temperature c t)
              = (if t < 0 then 0 else if 1 < t then 1 else t)"
    by (simp add: QianwenChat_temperature_def)
  then have "0 \<le> ch_temperature (QianwenChat_temperature c t)
      \<and> ch_temperature (QianwenChat_temperature c t) \<le> 1"
    by simp
  from calls_keep_unit_interval [OF this] eq show ?thesis by blast
qed

theorem temperature_clamps_witness:
  "ch_temperature (QianwenChat_temperature chat0 (- 0.5)) = 0
   \<and> ch_temperature (QianwenChat_temperature chat0 1.7) = 1
   \<and> ch_temperature (QianwenChat_temperature chat0 0.4) = 0.4
   \<and> ch_temperature (foldl call (QianwenChat_temperature chat0 1.7)
         [Model ''qwen-max'', Search True]) \<le> 1"
  using temperature_clamps [of chat0 "- 0.5" "[]"]
    temperature_clamps [of chat0 "1.7" "[Model ''qwen-max'', Search True]"]
    temperature_clamps [of chat0 "0.4" "[]"]
  by simp

section \<open>The factory prefers a caller-supplied storage\<close>

text \<open>
  The claim that the factory returns every supplied instance fails for an instance that
  is false as a Python object: the test \<open>if config.custom_storage:\<close> passes it over,
  and with the tag \<open>"mongodb"\<close> the factory returns the built-in storage.
\<close>

theorem false_custom_storage_passed_over:
  "create_memory_storage srv0
     \<lparr>mc_enabled = True, mc_storage_type = ''mongodb'', mc_max_history_length = 10,
      mc_custom_storage = Some \<lparr>si_object = (7::nat), si_truth = False\<rparr>\<rparr>
   = Inr (Some (MongoMemoryStorage (Mongo_init srv0)))"
  by (simp add: create_memory_storage_def if_custom_storage_def)

text \<open>
  C7, amended. When storage is enabled and a custom storage instance is supplied that is
  true as a Python object, the factory returns that instance, for the memory storage and
  for the log storage alike, whatever the storage-type tag says: the tag is not read.
\<close>

theorem true_custom_storage_chosen:
  "(mc_enabled mconfig \<and> mc_custom_storage mconfig = Some cm \<and> si_truth cm
      \<longrightarrow> create_memory_storage msrv mconfig = Inr (Some (CustomMemoryStorage (si_object cm))))
   \<and> (lc_enabled lconfig \<and> lc_custom_storage lconfig = Some cl \<and> si_truth cl
      \<longrightarrow> create_log_storage lsrv lconfig = Inr (Some (CustomLogStorage (si_object cl))))"
  by (simp add: create_memory_storage_def create_log_storage_def if_custom_storage_def)

theorem true_custom_storage_chosen_witness:
  "create_memory_storage srv0
       \<lparr>mc_enabled = True, mc_storage_type = ''mongodb'', mc_max_history_length = 10,
        mc_custom_storage = Some \<lparr>si_object = (7::nat), si_truth = True\<rparr>\<rparr>
     = Inr (Some (CustomMemoryStorage 7))
   \<and> (create_log_storage srv0
       \<lparr>lc_enabled = True, lc_storage_type = ''mongodb'', lc_log_requests = True,
        lc_log_responses = True, lc_log_errors = True,
        lc_custom_storage = Some \<lparr>si_object = (8::nat), si_truth = True\<rparr>\<rparr>
       :: exn + (nat, nat) LogStorage option) = Inr (Some (CustomLogStorage 8))"
  using true_custom_storage_chosen [of
      "\<lparr>mc_enabled = True, mc_storage_type = ''mongodb'', mc_max_history_length = 10,
        mc_custom_storage = Some \<lparr>si_object = (7::nat), si_truth = True\<rparr>\<rparr>"
      "\<lparr>si_object = 7, si_truth = True\<rparr>" srv0
      "\<lparr>lc_enabled = True, lc_storage_type = ''mongodb'', lc_log_requests = True,
        lc_log_responses = True, lc_log_errors = True,
        lc_custom_storage = Some \<lparr>si_object = (8::nat), si_truth = True\<rparr>\<rparr>"
      "\<lparr>si_object = 8, si_truth = True\<rparr>" srv0]
  by simp

section \<open>Storage failures stay inside the managers\<close>

lemma try_except_not_raise: "fst (try_except body (\<lambda>e s. (Inr v, s))) \<noteq> Inl e"
  by (cases body) (auto simp: try_except_def split: sum.splits)

lemma save_message_never_raises: "fst (MemoryManager_save_message dumps mm msg) \<noteq> Inl e"
  by (simp add: MemoryManager_save_message_def try_except_not_raise split: option.splits)

lemma get_history_never_raises: "fst (MemoryManager_get_history loads now mm u s l) \<noteq> Inl e"
  by (simp add: MemoryManager_get_history_def try_except_not_raise split: option.splits)

lemma clear_history_never_raises: "fst (MemoryManager_clear_history mm u s) \<noteq> Inl e"
  by (simp add: MemoryManager_clear_history_def try_except_not_raise split: option.splits)

lemma log_request_never_raises: "fst (LogManager_log_request uuid lm u s rd rid) \<noteq> Inl e"
  apply (simp add: LogManager_log_request_def Let_def split: option.splits prod.splits sum.splits)
  apply (metis try_except_not_raise fst_conv)
  done

lemma log_response_never_raises: "fst (LogManager_log_response lm u s rd rid) \<noteq> Inl e"
  by (simp add: LogManager_log_response_def try_except_not_raise split: option.splits)

lemma log_error_never_raises: "fst (LogManager_log_error lm u s ed) \<noteq> Inl e"
  by (simp add: LogManager_log_error_def try_except_not_raise split: option.splits)

lemma save_message_swallows:
  "mm_storage mm = Some st \<Longrightarrow> stored_content dumps (cm_content msg) = Inr stored
   \<Longrightarrow> storage_save_message st (cm_user_id msg) (cm_session_id msg) (cm_role msg) stored
         (cm_metadata msg) = (Inl e, st')
   \<Longrightarrow> MemoryManager_save_message dumps mm msg = (Inr (), mm\<lparr>mm_storage := Some st'\<rparr>)"
  by (simp add: MemoryManager_save_message_def try_except_def)

lemma get_history_swallows:
  "mm_storage mm = Some st \<Longrightarrow> cache_hit (mm_local_cache mm) (cache_key u s) = None
   \<Longrightarrow> storage_get_history (mc_max_history_length (mm_config mm)) st u s l = (Inl e, st')
   \<Longrightarrow> MemoryManager_get_history loads now mm u s l = (Inr [], mm\<lparr>mm_storage := Some st'\<rparr>)"
  by (simp add: MemoryManager_get_history_def try_except_def)

lemma clear_history_swallows:
  "mm_storage mm = Some st \<Longrightarrow> storage_clear_history st u s = (Inl e, st')
   \<Longrightarrow> MemoryManager_clear_history mm u s = (Inr (), mm\<lparr>mm_storage := Some st'\<rparr>)"
  by (simp add: MemoryManager_clear_history_def try_except_def)

lemma log_request_swallows:
  "lm_storage lm = Some st
   \<Longrightarrow> log_storage_log_request (lm_config lm) st u s (request_log (or_default rid uuid) rd)
         = (Inl e, st')
   \<Longrightarrow> LogManager_log_request uuid lm u s rd rid
         = (Inr (or_default rid uuid), lm\<lparr>lm_storage := Some st'\<rparr>)"
  by (simp add: LogManager_log_request_def try_except_def)

lemma log_response_swallows:
  "lm_storage lm = Some st
   \<Longrightarrow> log_storage_log_response (lm_config lm) st u s (response_log resp) rid = (Inl e, st')
   \<Longrightarrow> LogManager_log_response lm u s resp rid = (Inr (), lm\<lparr>lm_storage := Some st'\<rparr>)"
  by (simp add: LogManager_log_response_def try_except_def)

lemma log_error_swallows:
  "lm_storage lm = Some st
   \<Longrightarrow> log_storage_log_error (lm_config lm) st u s ed = (Inl e, st')
   \<Longrightarrow> LogManager_log_error lm u s ed = (Inr (), lm\<lparr>lm_storage := Some st'\<rparr>)"
  by (simp add: LogManager_log_error_def try_except_def)

text \<open>
  C4. When the method of the underlying storage raises, the manager operation returns
  normally: \<open>get_history\<close> gives the empty list, and \<open>save_message\<close>,
  \<open>clear_history\<close>, \<open>log_request\<close> (which still returns the request id),
  \<open>log_response\<close> and \<open>log_error\<close> complete with nothing done beyond what the storage
  itself left behind. Moreover none of the six operations raises in any state, whatever
  the storage does.
\<close>

theorem storage_exceptions_swallowed:
  "(mm_storage mm = Some st \<and> stored_content dumps (cm_content msg) = Inr stored
      \<and> storage_save_message st (cm_user_id msg) (cm_session_id msg) (cm_role msg) stored
          (cm_metadata msg) = (Inl e, st')
      \<longrightarrow> MemoryManager_save_message dumps mm msg = (Inr (), mm\<lparr>mm_storage := Some st'\<rparr>))
   \<and> (mm_storage mm = Some st \<and> cache_hit (mm_local_cache mm) (cache_key u s) = None
      \<and> storage_get_history (mc_max_history_length (mm_config mm)) st u s l = (Inl e, st')
      \<longrightarrow> MemoryManager_get_history loads now mm u s l
            = (Inr [], mm\<lparr>mm_storage := Some st'\<rparr>))
   \<and> (mm_storage mm = Some st \<and> storage_clear_history st u s = (Inl e, st')
      \<longrightarrow> MemoryManager_clear_history mm u s = (Inr (), mm\<lparr>mm_storage := Some st'\<rparr>))
   \<and> (lm_storage lm = Some lst
      \<and> log_storage_log_request (lm_config lm) lst u s (request_log (or_default rid uuid) rd)
          = (Inl e, lst')
      \<longrightarrow> LogManager_log_request uuid lm u s rd rid
            = (Inr (or_default rid uuid), lm\<lparr>lm_storage := Some lst'\<rparr>))
   \<and> (lm_storage lm = Some lst
      \<and> log_storage_log_response (lm_config lm) lst u s (response_log resp) rid' = (Inl e, lst')
      \<longrightarrow> LogManager_log_response lm u s resp rid' = (Inr (), lm\<lparr>lm_storage := Some lst'\<rparr>))
   \<and> (lm_storage lm = Some lst
      \<and> log_storage_log_error (lm_config lm) lst u s ed = (Inl e, lst')
      \<longrightarrow> LogManager_log_error lm u s ed = (Inr (), lm\<lparr>lm_storage := Some lst'\<rparr>))
   \<and> fst (MemoryManager_save_message dumps mm msg) \<noteq> Inl e'
   \<and> fst (MemoryManager_get_history loads now mm u s l) \<noteq> Inl e'
   \<and> fst (MemoryManager_clear_history mm u s) \<noteq> Inl e'
   \<and> fst (LogManager_log_request uuid lm u s rd rid) \<noteq> Inl e'
   \<and> fst (LogManager_log_response lm u s resp rid') \<noteq> Inl e'
   \<and> fst (LogManager_log_error lm u s ed) \<noteq> Inl e'"
  using save_message_swallows [of mm st dumps msg stored e st']
    get_history_swallows [of mm st u s l e st' loads now]
    clear_history_swallows [of mm st u s e st']
    log_request_swallows [of lm lst u s rid uuid rd e lst']
    log_response_swallows [of lm lst u s resp rid' e lst']
    log_error_swallows [of lm lst u s ed e lst']
    save_message_never_raises [of dumps mm msg e']
    get_history_never_raises [of loads now mm u s l e']
    clear_history_never_raises [of mm u s e']
    log_request_never_raises [of uuid lm u s rd rid e']
    log_response_never_raises [of lm u s resp rid' e']
    log_error_never_raises [of lm u s ed e']
  by blast

theorem storage_exceptions_swallowed_witness:
  "MemoryManager_save_message int_dumps failing_memory_manager message0
     = (Inr (), failing_memory_manager)
   \<and> MemoryManager_get_history int_loads 0 failing_memory_manager ''u'' ''s'' None
     = (Inr [], failing_memory_manager)
   \<and> MemoryManager_clear_history (failing_memory_manager :: (unit, int) MemoryManager) ''u'' ''s''
     = (Inr (), failing_memory_manager)
   \<and> LogManager_log_request ''id-1'' (failing_log_manager :: (unit, int) LogManager) ''u'' ''s''
       request0 None
     = (Inr ''id-1'', failing_log_manager)
   \<and> LogManager_log_response (failing_log_manager :: (unit, int) LogManager) ''u'' ''s''
       (StreamResponse ''hello'') (Some ''id-1'')
     = (Inr (), failing_log_manager)
   \<and> LogManager_log_error (failing_log_manager :: (unit, int) LogManager) ''u'' ''s''
       (ErrorLog ''TimeoutError'' ''timed out'' None)
     = (Inr (), failing_log_manager)"
proof -
  let ?st = "CustomMemoryStorage failing_memory_storage :: (unit, int) custom_memory_storage MemoryStorage"
  let ?lst = "CustomLogStorage failing_log_storage :: ((unit, int) custom_log_storage, int) LogStorage"
  have m1: "mm_storage (failing_memory_manager :: (unit, int) MemoryManager) = Some ?st"
    and m2: "(failing_memory_manager :: (unit, int) MemoryManager)\<lparr>mm_storage := Some ?st\<rparr>
               = failing_memory_manager"
    and m3: "cache_hit (mm_local_cache (failing_memory_manager :: (unit, int) MemoryManager))
               (cache_key ''u'' ''s'') = None"
    by (simp_all add: failing_memory_manager_def cache_hit_def)
  have m4: "stored_content int_dumps (cm_content message0) = Inr ''hi''"
    by (simp add: stored_content_def message0_def)
  have m5: "storage_save_message ?st (cm_user_id message0) (cm_session_id message0)
              (cm_role message0) ''hi'' (cm_metadata message0) = (Inl unreachable, ?st)"
    and m6: "storage_get_history
               (mc_max_history_length (mm_config (failing_memory_manager :: (unit, int) MemoryManager)))
               ?st ''u'' ''s'' None = (Inl unreachable, ?st)"
    and m7: "storage_clear_history ?st ''u'' ''s'' = (Inl unreachable, ?st)"
    by (simp_all add: storage_save_message_def storage_get_history_def
        storage_clear_history_def failing_memory_storage_def)
  have l1: "lm_storage (failing_log_manager :: (unit, int) LogManager) = Some ?lst"
    and l2: "(failing_log_manager :: (unit, int) LogManager)\<lparr>lm_storage := Some ?lst\<rparr>
               = failing_log_manager"
    by (simp_all add: failing_log_manager_def)
  have l3: "log_storage_log_request (lm_config failing_log_manager) ?lst ''u'' ''s''
              (request_log ''id-1'' request0) = (Inl unreachable, ?lst)"
    and l4: "log_storage_log_response (lm_config failing_log_manager) ?lst ''u'' ''s''
               (response_log (StreamResponse ''hello'')) (Some ''id-1'') = (Inl unreachable, ?lst)"
    and l5: "log_storage_log_error (lm_config failing_log_manager) ?lst ''u'' ''s''
               (ErrorLog ''TimeoutError'' ''timed out'' None) = (Inl unreachable, ?lst)"
    by (simp_all add: log_storage_log_request_def log_storage_log_response_def
        log_storage_log_error_def failing_log_storage_def)
  have l6: "or_default None ''id-1'' = ''id-1''"
    by (simp add: or_default_def)
  from storage_exceptions_swallowed [where mm = failing_memory_manager and st = ?st
      and st' = ?st and dumps = int_dumps and msg = message0 and stored = "''hi''"
      and e = unreachable and e' = unreachable and u = "''u''" and s = "''s''" and l = None
      and loads = int_loads and now = 0 and lm = failing_log_manager and lst = ?lst
      and lst' = ?lst and rid = None and rid' = "Some ''id-1''" and uuid = "''id-1''" and rd = request0
      and resp = "StreamResponse ''hello''"
      and ed = "ErrorLog ''TimeoutError'' ''timed out'' None"]
  show ?thesis
    by (simp add: m1 m2 m3 m4 m5 m6 m7 l1 l2 l3 l4 l5 l6)
qed

section \<open>Memory disabled\<close>

text \<open>
  C5. With memory disabled in the configuration the factory creates no storage, the
  manager built from that configuration has neither a storage nor a cache, and each of
  its operations returns at once and leaves the manager as it was: \<open>save_message\<close> and
  \<open>clear_history\<close> return normally and \<open>get_history\<close> returns the empty list, for every
  user, session, message and limit. There is no storage object that could be invoked.
\<close>

theorem disabled_memory_is_noop:
  "\<not> mc_enabled config \<Longrightarrow>
   create_memory_storage srv config = Inr None
   \<and> (\<exists>mm. MemoryManager_init have_TTLCache srv config = Inr mm
         \<and> mm_storage mm = None \<and> mm_local_cache mm = None
         \<and> MemoryManager_save_message dumps mm msg = (Inr (), mm)
         \<and> MemoryManager_get_history loads now mm u s l = (Inr [], mm)
         \<and> MemoryManager_clear_history mm u s = (Inr (), mm))"
  by (simp add: create_memory_storage_def MemoryManager_init_def MemoryManager_save_message_def
      MemoryManager_get_history_def MemoryManager_clear_history_def)

theorem disabled_memory_is_noop_witness:
  "\<not> mc_enabled (memory_disabled :: (unit, int) custom_memory_storage MemoryConfig)
   \<and> (\<exists>mm. MemoryManager_init True srv0 memory_disabled = Inr mm
         \<and> MemoryManager_save_message int_dumps mm message0 = (Inr (), mm)
         \<and> MemoryManager_get_history int_loads 0 mm ''u'' ''s'' (Some 5) = (Inr [], mm)
         \<and> MemoryManager_clear_history (mm :: (unit, int) MemoryManager) ''u'' ''s'' = (Inr (), mm))"
proof -
  have off: "\<not> mc_enabled (memory_disabled :: (unit, int) custom_memory_storage MemoryConfig)"
    by (simp add: memory_disabled_def memory_config0_def)
  from disabled_memory_is_noop [OF off, of srv0 True int_dumps message0 int_loads 0 "''u''" "''s''" "Some 5"]
  show ?thesis using off by blast
qed

section \<open>The per-kind log flags\<close>

text \<open>
  The claim that every \<open>LogManager\<close> call tests the per-kind flag, over any log storage,
  fails: \<open>LogManager\<close> tests no flag. Over the \<open>FileLogStorage\<close> of the repository's
  examples, with \<open>log_requests\<close> false, \<open>log_request\<close> writes an entry.
\<close>

theorem file_log_ignores_flag:
  "\<not> lc_log_requests (lm_config (file_log_manager :: (int file_log, int) LogManager))
   \<and> log_file (snd (LogManager_log_request ''id-1'' (file_log_manager :: (int file_log, int) LogManager)
         ''u'' ''s'' request0 None))
      = [(''request'', ''u'', ''s'', request_log ''id-1'' request0, None)]"
  by (simp add: file_log_manager_def log_config0_def LogManager_log_request_def try_except_def
      log_storage_log_request_def FileLogStorage_def log_file_def or_default_def Let_def)

lemma MongoLogStorage_log_off [simp]:
  "MongoLogStorage_log False m u s t d rid = (False, m)"
  by (simp add: MongoLogStorage_log_def)

text \<open>
  C6, amended. Over the built-in MongoDB log storage, whose methods are the ones that
  test the flags, each of \<open>log_request\<close>, \<open>log_response\<close> and \<open>log_error\<close> records
  nothing when its flag (\<open>log_requests\<close>, \<open>log_responses\<close>, \<open>log_errors\<close>) is false:
  the manager and its storage are left as they were, and the call returns normally,
  \<open>log_request\<close> with the request id.
\<close>

theorem mongo_log_flags_respected:
  "lm_storage lm = Some (MongoLogStorage m) \<Longrightarrow>
     (\<not> lc_log_requests (lm_config lm)
        \<longrightarrow> LogManager_log_request uuid lm u s rd rid = (Inr (or_default rid uuid), lm))
   \<and> (\<not> lc_log_responses (lm_config lm)
        \<longrightarrow> LogManager_log_response lm u s resp rid' = (Inr (), lm))
   \<and> (\<not> lc_log_errors (lm_config lm)
        \<longrightarrow> LogManager_log_error lm u s ed = (Inr (), lm))"
proof -
  assume st: "lm_storage lm = Some (MongoLogStorage m)"
  then have same: "lm\<lparr>lm_storage := Some (MongoLogStorage m)\<rparr> = lm"
    by (cases lm) simp
  show ?thesis
    using st same
    by (simp add: LogManager_log_request_def LogManager_log_response_def
        LogManager_log_error_def try_except_def log_storage_log_request_def
        log_storage_log_response_def log_storage_log_error_def
        MongoLogStorage_log_request_def MongoLogStorage_log_response_def
        MongoLogStorage_log_error_def)
qed

theorem mongo_log_flags_respected_witness:
  "LogManager_log_request ''id-1'' (quiet_log_manager :: (unit, int) LogManager) ''u'' ''s'' request0 None
     = (Inr ''id-1'', quiet_log_manager)
   \<and> LogManager_log_response (quiet_log_manager :: (unit, int) LogManager) ''u'' ''s''
       (StreamResponse ''hello'') (Some ''id-1'') = (Inr (), quiet_log_manager)
   \<and> LogManager_log_error (quiet_log_manager :: (unit, int) LogManager) ''u'' ''s''
       (ErrorLog ''TimeoutError'' ''timed out'' None) = (Inr (), quiet_log_manager)"
proof -
  have st: "lm_storage (quiet_log_manager :: (unit, int) LogManager)
              = Some (MongoLogStorage (srv0\<lparr>ms_connected := True\<rparr>))"
    by (simp add: quiet_log_manager_def)
  have off: "\<not> lc_log_requests (lm_config (quiet_log_manager :: (unit, int) LogManager))"
    "\<not> lc_log_responses (lm_config (quiet_log_manager :: (unit, int) LogManager))"
    "\<not> lc_log_errors (lm_config (quiet_log_manager :: (unit, int) LogManager))"
    by (simp_all add: quiet_log_manager_def)
  from mongo_log_flags_respected [OF st, of "''id-1''" "''u''" "''s''" request0 None
      "StreamResponse ''hello''" "Some ''id-1''" "ErrorLog ''TimeoutError'' ''timed out'' None"] off
  show ?thesis by (simp add: or_default_def)
qed

section \<open>History reads\<close>

text \<open>
  The local cache of a manager is empty when the constructor returns, and no operation
  of the manager puts an entry into it: each write to the cache is guarded by the test
  \<open>if self._local_cache:\<close>, which fails on an empty cache. So every read of a manager
  that the constructor built misses the cache and goes to the storage.
\<close>

lemma init_cache_empty: "MemoryManager_init h srv cfg = Inr mm \<Longrightarrow> cache_empty mm"
  by (auto simp: MemoryManager_init_def cache_empty_def split: sum.splits if_splits)

lemma save_keeps_cache_empty:
  "cache_empty mm \<Longrightarrow> cache_empty (snd (MemoryManager_save_message dumps mm msg))"
  by (auto simp: MemoryManager_save_message_def cache_empty_def try_except_def cache_append_def
      Let_def split: option.splits sum.splits prod.splits)

lemma get_keeps_cache_empty:
  "cache_empty mm \<Longrightarrow> cache_empty (snd (MemoryManager_get_history loads now mm u s l))"
  by (auto simp: MemoryManager_get_history_def cache_empty_def try_except_def cache_store_def
      cache_hit_def Let_def split: option.splits sum.splits prod.splits)

lemma clear_keeps_cache_empty:
  "cache_empty mm \<Longrightarrow> cache_empty (snd (MemoryManager_clear_history mm u s))"
  by (auto simp: MemoryManager_clear_history_def cache_empty_def try_except_def cache_delete_def
      Let_def split: option.splits sum.splits prod.splits)

lemma to_ChatMessage_as_dict:
  "to_ChatMessage loads now u s (as_dict doc)
     = (if readable loads (d_content doc) then Inr (doc_message loads u s doc)
        else Inl (projl (loads (d_content doc))))"
  by (auto simp: to_ChatMessage_def as_dict_def doc_message_def readable_def decoded_def
      split: sum.splits)

lemma to_ChatMessages_as_dict:
  "\<forall>d \<in> set docs. readable loads (d_content d)
     \<Longrightarrow> to_ChatMessages loads now u s (map as_dict docs) = Inr (map (doc_message loads u s) docs)"
  by (induction docs) (simp_all add: to_ChatMessage_as_dict)

lemma to_ChatMessages_unreadable:
  "\<not> (\<forall>d \<in> set docs. readable loads (d_content d))
     \<Longrightarrow> \<exists>e. to_ChatMessages loads now u s (map as_dict docs) = Inl e"
proof (induction docs)
  case Nil
  then show ?case by simp
next
  case (Cons d docs)
  show ?case
  proof (cases "readable loads (d_content d)")
    case True
    with Cons.prems have "\<not> (\<forall>d \<in> set docs. readable loads (d_content d))" by simp
    from Cons.IH [OF this] True show ?thesis
      by (auto simp: to_ChatMessage_as_dict)
  next
    case False
    then show ?thesis by (simp add: to_ChatMessage_as_dict)
  qed
qed

lemma cache_empty_miss: "cache_empty mm \<Longrightarrow> cache_hit (mm_local_cache mm) k = None"
  by (auto simp: cache_empty_def cache_hit_def)

lemma cache_store_miss_free:
  "cache_hit c k = None \<Longrightarrow> c = None \<or> c = Some [] \<Longrightarrow> cache_store c k v = c"
  by (auto simp: cache_store_def)

text \<open>
  A read that misses the cache, over the built-in storage: the selected documents, each
  turned into a message, or nothing when decoding one of them raises out of the loop.
\<close>

lemma mongo_history_on_miss:
  assumes "mm_storage mm = Some (MongoMemoryStorage m)"
    and "cache_hit (mm_local_cache mm) (cache_key u s) = None"
  shows "history_of (MemoryManager_get_history loads now mm u s limit)
     = (if ms_connected m \<and> ms_up m
           \<and> (\<forall>d \<in> set (selected (mc_max_history_length (mm_config mm)) m u s limit).
                 readable loads (d_content d))
        then map (doc_message loads u s)
               (selected (mc_max_history_length (mm_config mm)) m u s limit)
        else [])"
proof -
  let ?sel = "selected (mc_max_history_length (mm_config mm)) m u s limit"
  have data: "MongoMemoryStorage_get_history (mc_max_history_length (mm_config mm)) m u s limit
                = (if ms_connected m \<and> ms_up m then map as_dict ?sel else [] :: 'b msg_data list)"
    by (simp add: MongoMemoryStorage_get_history_def selected_def Let_def)
  show ?thesis
  proof (cases "ms_connected m \<and> ms_up m")
    case False
    with assms data show ?thesis
      by (auto simp: MemoryManager_get_history_def try_except_def storage_get_history_def
          history_of_def)
  next
    case up: True
    show ?thesis
    proof (cases "\<forall>d \<in> set ?sel. readable loads (d_content d)")
      case True
      from to_ChatMessages_as_dict [OF this, of now u s] assms data up True show ?thesis
        by (simp add: MemoryManager_get_history_def try_except_def storage_get_history_def
            history_of_def)
    next
      case False
      from to_ChatMessages_unreadable [OF this, of now u s] obtain e
        where "to_ChatMessages loads now u s (map as_dict ?sel) = Inl e" ..
      with assms data up False show ?thesis
        by (auto simp: MemoryManager_get_history_def try_except_def storage_get_history_def
            history_of_def)
    qed
  qed
qed

lemma timestamp_doc_message: "cm_timestamp \<circ> doc_message loads u s = d_timestamp"
  by (rule ext) (simp add: doc_message_def)

lemma sorted_apply_limit:
  "sorted (map f xs) \<Longrightarrow> sorted (map f (apply_limit n limit xs))"
  by (auto simp: apply_limit_def cursor_limit_def take_map [symmetric] sorted_wrt_take
      split: option.splits)

lemma length_apply_limit_explicit:
  "truthy_limit limit = Some l \<Longrightarrow> length (apply_limit n limit xs) \<le> nat \<bar>l\<bar>"
  by (simp add: apply_limit_def cursor_limit_def)

lemma length_apply_limit_default:
  "truthy_limit limit = None \<Longrightarrow> 0 < n \<Longrightarrow> length (apply_limit n limit xs) \<le> nat n"
  by (simp add: apply_limit_def cursor_limit_def)

lemmas read_defs =
  MemoryManager_get_history_def try_except_def storage_get_history_def
  MongoMemoryStorage_get_history_def history_of_def Let_def mongo_manager_def mongo_with_def
  cache_hit_def turn_def apply_limit_def truthy_limit_def as_dict_def to_ChatMessage_def
  memory_config0_def int_loads_def nat_literal_def not_json_def caught_by_decode_def
  cursor_limit_def

text \<open>
  The claim that a history read holds at most as many messages as the effective limit
  (the explicit limit, else the configured default) fails where the configured default
  is \<open>0\<close>: \<open>get_history\<close> of the built-in storage limits the cursor only when
  \<open>max_history_length > 0\<close>, so with no explicit limit the read returns the one stored
  message, more than the effective limit \<open>0\<close>.
\<close>

theorem unlimited_history_exceeds_default:
  "\<not> int (length (history_of (MemoryManager_get_history int_loads 0
              (mongo_manager [turn ''user'' ''t1'' 1] 0 :: (unit, int) MemoryManager)
              ''u'' ''s'' None)))
      \<le> spec_effective_limit None
          (mc_max_history_length (mm_config (mongo_manager [turn ''user'' ''t1'' 1] 0 :: (unit, int) MemoryManager)))"
  by (simp add: read_defs spec_effective_limit_def)

text \<open>
  C3, amended. A history read that the manager serves from the built-in storage (a cache
  miss, as every read of a constructed manager is) is sorted by timestamp in ascending
  order. It holds at most \<open>|limit|\<close> messages when a limit other than \<open>0\<close> is given, and
  otherwise at most \<open>max_history_length\<close> messages when that is positive; with neither,
  no bound applies.
\<close>

theorem mongo_history_sorted_bounded:
  assumes "mm_storage mm = Some (MongoMemoryStorage m)"
    and "cache_hit (mm_local_cache mm) (cache_key u s) = None"
  shows "sorted (map cm_timestamp (history_of (MemoryManager_get_history loads now mm u s limit)))
     \<and> (\<forall>l. truthy_limit limit = Some l
           \<longrightarrow> length (history_of (MemoryManager_get_history loads now mm u s limit)) \<le> nat \<bar>l\<bar>)
     \<and> (truthy_limit limit = None \<and> 0 < mc_max_history_length (mm_config mm)
           \<longrightarrow> length (history_of (MemoryManager_get_history loads now mm u s limit))
                 \<le> nat (mc_max_history_length (mm_config mm)))"
proof -
  let ?found = "filter (\<lambda>d. d_user_id d = Some u \<and> d_session_id d = Some s) (ms_docs m)"
  have "sorted (map d_timestamp (sort_key d_timestamp ?found))"
    by (rule sorted_sort_key)
  then have "sorted (map d_timestamp
      (apply_limit (mc_max_history_length (mm_config mm)) limit (sort_key d_timestamp ?found)))"
    by (rule sorted_apply_limit)
  then show ?thesis
    unfolding mongo_history_on_miss [OF assms]
    by (simp add: selected_def timestamp_doc_message length_apply_limit_explicit
        length_apply_limit_default)
qed

theorem mongo_history_sorted_bounded_witness:
  "sorted (map cm_timestamp (history_of (MemoryManager_get_history int_loads 0
        (mongo_manager three_turns 2 :: (unit, int) MemoryManager) ''u'' ''s'' None)))
   \<and> length (history_of (MemoryManager_get_history int_loads 0
        (mongo_manager three_turns 2 :: (unit, int) MemoryManager) ''u'' ''s'' None)) \<le> 2
   \<and> length (history_of (MemoryManager_get_history int_loads 0
        (mongo_manager three_turns 2 :: (unit, int) MemoryManager) ''u'' ''s'' (Some 1))) \<le> 1"
proof -
  let ?mm = "mongo_manager three_turns 2 :: (unit, int) MemoryManager"
  have st: "mm_storage ?mm = Some (MongoMemoryStorage (mongo_with three_turns))"
    and miss: "cache_hit (mm_local_cache ?mm) (cache_key ''u'' ''s'') = None"
    and n: "mc_max_history_length (mm_config ?mm) = 2"
    by (simp_all add: mongo_manager_def cache_hit_def)
  have t: "truthy_limit None = None" "truthy_limit (Some 1) = Some 1"
    by (simp_all add: truthy_limit_def)
  from mongo_history_sorted_bounded [OF st miss, of int_loads 0 None]
    mongo_history_sorted_bounded [OF st miss, of int_loads 0 "Some 1"] n t
  show ?thesis by simp
qed

section \<open>Saved content is decoded on read\<close>


lemma save_on_mongo:
  assumes "mm_storage mm = Some (MongoMemoryStorage m)" "ms_connected m" "ms_up m"
    and "stored_content dumps (cm_content msg) = Inr stored"
  shows "MemoryManager_save_message dumps mm msg =
     (Inr (), mm\<lparr>mm_storage := Some (MongoMemoryStorage
                  (m\<lparr>ms_reads := Suc (ms_reads m),
                     ms_docs := ms_docs m @
                       [\<lparr>d_user_id = cm_user_id msg, d_session_id = cm_session_id msg,
                         d_role = cm_role msg, d_content = stored, d_metadata = cm_metadata msg,
                         d_timestamp = ms_utcnow m (ms_reads m)\<rparr>]\<rparr>)),
                 mm_local_cache := cache_append (mm_local_cache mm)
                    (cache_key (fmt (cm_user_id msg)) (fmt (cm_session_id msg))) msg\<rparr>)"
  using assms
  by (simp add: MemoryManager_save_message_def try_except_def storage_save_message_def
      MongoMemoryStorage_save_message_def Let_def)

lemma apply_limit_single: "apply_limit n limit [x] = [x]"
  by (auto simp: apply_limit_def cursor_limit_def truthy_limit_def split: option.splits if_splits)





section \<open>The history sent with a request\<close>

lemmas eval_defs =
  QianwenChat_build_messages_def MemoryManager_get_history_def try_except_def and_then_def
  storage_get_history_def MongoMemoryStorage_get_history_def Let_def mongo_manager_def
  mongo_with_def cache_hit_def cache_store_def cache_append_def turn_def three_turns_def
  apply_limit_def cursor_limit_def truthy_limit_def as_dict_def to_ChatMessage_def
  memory_config0_def client_over_def api_def chat0_def int_loads_def nat_literal_def
  not_json_def caught_by_decode_def
  log_config0_def model_config0_def reply_def

text \<open>
  C1. The claim is that with \<open>max_history_length = 2\<close> and stored messages
  \<open>t1, t2, t3\<close> (in that order of time) a new request carries \<open>[t2, t3]\<close>. The code
  sends \<open>[t1, t2]\<close>: the built-in storage sorts the session by ascending timestamp and
  then limits the cursor, which keeps the oldest messages. The message list built for the
  request \<open>ask("q")\<close> is evaluated here.
\<close>

theorem oldest_messages_sent:
  "fst (QianwenChat_build_messages (api (reply [''a'']) [])
          (client_over (mongo_manager three_turns 2) :: (unit, unit, int) QianwenClient)
          chat0 ''q'')
   = Inr [(''user'', Str ''t1''), (''assistant'', Str ''t2''), (''user'', Str ''q'')]"
  by (simp add: eval_defs)

section \<open>What a call leaves in memory\<close>

text \<open>
  The steps of a call that do not write to memory: building the message list reads the
  history and leaves the built-in storage as it was, the log calls and the exception
  clause do not touch the memory manager, and none of them raises.
\<close>

lemma get_history_returns:
  "MemoryManager_get_history loads now mm u s l \<noteq> (Inl e, mm')"
  using get_history_never_raises [of loads now mm u s l e] by auto

lemma save_message_returns: "MemoryManager_save_message dumps mm msg \<noteq> (Inl e, mm')"
  using save_message_never_raises [of dumps mm msg e] by auto

lemma log_request_returns: "LogManager_log_request uuid lm u s rd rid \<noteq> (Inl e, lm')"
  using log_request_never_raises [of uuid lm u s rd rid e] by auto

lemma log_response_returns: "LogManager_log_response lm u s resp rid \<noteq> (Inl e, lm')"
  using log_response_never_raises [of lm u s resp rid e] by auto

lemma log_error_returns: "LogManager_log_error lm u s ed \<noteq> (Inl e, lm')"
  using log_error_never_raises [of lm u s ed e] by auto

lemmas managers_return = get_history_returns save_message_returns log_request_returns
  log_response_returns log_error_returns

lemma mm_mongo_get_history:
  "mm_mongo (snd (MemoryManager_get_history loads now mm u s l)) = mm_mongo mm"
  by (auto simp: MemoryManager_get_history_def try_except_def storage_get_history_def
      mm_mongo_def Let_def
      split: option.splits sum.splits prod.splits MemoryStorage.splits)

lemma mm_mongo_get_history_pair:
  "MemoryManager_get_history loads now mm u s l = (r, mm') \<Longrightarrow> mm_mongo mm' = mm_mongo mm"
  using mm_mongo_get_history [of loads now mm u s l] by simp

lemma build_messages_frame:
  "mongo_of (snd (QianwenChat_build_messages env client c message)) = mongo_of client
   \<and> memory_on (snd (QianwenChat_build_messages env client c message)) c = memory_on client c
   \<and> log_manager (snd (QianwenChat_build_messages env client c message)) = log_manager client"
  by (auto simp: QianwenChat_build_messages_def mongo_of_def memory_on_def Let_def
      dest: mm_mongo_get_history_pair split: option.splits sum.splits prod.splits)

lemma build_messages_never_raises:
  "fst (QianwenChat_build_messages env client c message) \<noteq> Inl e"
  by (auto simp: QianwenChat_build_messages_def Let_def managers_return
      split: option.splits sum.splits prod.splits)

lemma chat_log_request_frame:
  "memory_manager (snd (chat_log_request env client c rp)) = memory_manager client
   \<and> fst (chat_log_request env client c rp) \<noteq> Inl e"
  by (auto simp: chat_log_request_def Let_def managers_return split: option.splits sum.splits prod.splits)

lemma chat_log_response_frame:
  "memory_manager (snd (chat_log_response client c resp rid)) = memory_manager client
   \<and> fst (chat_log_response client c resp rid) \<noteq> Inl e"
  by (auto simp: chat_log_response_def Let_def managers_return split: option.splits sum.splits prod.splits)

lemma chat_log_error_frame:
  "memory_manager (snd (chat_log_error client c ed)) = memory_manager client
   \<and> fst (chat_log_error client c ed) \<noteq> Inl e"
  by (auto simp: chat_log_error_def Let_def managers_return split: option.splits sum.splits prod.splits)

lemma chat_except_frame:
  "memory_manager (snd (chat_except prefix client c rp e :: (exn + 'a) \<times> _)) = memory_manager client
   \<and> (\<exists>e'. fst (chat_except prefix client c rp e :: (exn + 'a) \<times> _) = Inl e')"
  using chat_log_error_frame [of client c "ErrorLog (exn_type e) (exn_message e) rp"]
  by (auto simp: chat_except_def split: prod.splits sum.splits)

lemma chat_save_message_never_raises:
  "fst (chat_save_message env client msg) \<noteq> Inl e"
  by (auto simp: chat_save_message_def Let_def managers_return split: option.splits prod.splits)

lemma chat_save_message_on_mongo:
  assumes "mongo_of client = Some m" "ms_connected m" "ms_up m"
    and "stored_content (json_dumps env) (cm_content msg) = Inr stored"
  shows "fst (chat_save_message env client msg) = Inr ()
     \<and> mongo_of (snd (chat_save_message env client msg))
         = Some (m\<lparr>ms_reads := Suc (ms_reads m),
                   ms_docs := ms_docs m @
                     [\<lparr>d_user_id = cm_user_id msg, d_session_id = cm_session_id msg,
                       d_role = cm_role msg, d_content = stored, d_metadata = cm_metadata msg,
                       d_timestamp = ms_utcnow m (ms_reads m)\<rparr>]\<rparr>)"
proof -
  from assms(1) obtain mm where mm: "memory_manager client = Some mm"
    and st: "mm_storage mm = Some (MongoMemoryStorage m)"
    by (auto simp: mongo_of_def mm_mongo_def split: option.splits MemoryStorage.splits)
  show ?thesis
    using save_on_mongo [OF st assms(2,3,4)]
    by (simp add: chat_save_message_def mm mongo_of_def mm_mongo_def)
qed

lemma chat_log_request_returns: "chat_log_request env client c rp \<noteq> (Inl e, client')"
  using chat_log_request_frame [of env client c rp e] by auto

lemma chat_log_response_returns: "chat_log_response client c resp rid \<noteq> (Inl e, client')"
  using chat_log_response_frame [of client c resp rid e] by auto

lemma chat_save_message_returns: "chat_save_message env client msg \<noteq> (Inl e, client')"
  using chat_save_message_never_raises [of env client msg e] by auto

lemmas chat_returns = chat_log_request_returns chat_log_response_returns
  chat_save_message_returns

lemma mongo_of_cong: "memory_manager client' = memory_manager client
    \<Longrightarrow> mongo_of client' = mongo_of client \<and> memory_on client' c = memory_on client c"
  by (simp add: mongo_of_def memory_on_def)

lemma mongo_memory_on: "mongo_of client = Some m \<Longrightarrow> ch_memory_enabled c \<Longrightarrow> memory_on client c"
  by (auto simp: mongo_of_def memory_on_def split: option.splits)

lemma chat_log_response_result:
  obtains client1 where "chat_log_response client c resp rid = (Inr (), client1)"
    and "memory_manager client1 = memory_manager client"
proof (cases "chat_log_response client c resp rid")
  case (Pair r client1)
  with chat_log_response_returns [of client c resp rid _ client1] have "r = Inr ()"
    by (cases r) auto
  moreover from Pair chat_log_response_frame [of client c resp rid]
  have "memory_manager client1 = memory_manager client" by simp
  ultimately show ?thesis using Pair that by simp
qed

lemma chat_log_request_result:
  obtains rid client1 where "chat_log_request env client c rp = (Inr rid, client1)"
    and "memory_manager client1 = memory_manager client"
proof (cases "chat_log_request env client c rp")
  case (Pair r client1)
  with chat_log_request_returns [of env client c rp _ client1] obtain rid where "r = Inr rid"
    by (cases r) auto
  moreover from Pair chat_log_request_frame [of env client c rp]
  have "memory_manager client1 = memory_manager client" by simp
  ultimately show ?thesis using Pair that by simp
qed

lemma chat_save_message_result:
  assumes "mongo_of client = Some m" and "ms_connected m" and "ms_up m"
    and "stored_content (json_dumps env) content' = Inr stored"
  obtains client1 where
    "chat_save_message env client (new_message env c role content') = (Inr (), client1)"
    and "mongo_of client1 = Some (m\<lparr>ms_reads := Suc (ms_reads m),
           ms_docs := ms_docs m @ [turn_doc c role stored (ms_utcnow m (ms_reads m))]\<rparr>)"
proof (cases "chat_save_message env client (new_message env c role content')")
  case (Pair r client1)
  have "stored_content (json_dumps env) (cm_content (new_message env c role content')) = Inr stored"
    using assms(4) by (simp add: new_message_def)
  from chat_save_message_on_mongo [OF assms(1-3) this] Pair
  have "r = Inr ()" and "mongo_of client1 = Some (m\<lparr>ms_reads := Suc (ms_reads m),
           ms_docs := ms_docs m @ [turn_doc c role stored (ms_utcnow m (ms_reads m))]\<rparr>)"
    by (simp_all add: new_message_def turn_doc_def)
  with Pair that show ?thesis by simp
qed

section \<open>The turn persisted by ask\<close>

lemma chat_save_message_returns_unit:
  obtains client1 where "chat_save_message env client msg = (Inr (), client1)"
proof (cases "chat_save_message env client msg")
  case (Pair r client1)
  with chat_save_message_returns [of env client msg _ client1] have "r = Inr ()"
    by (cases r) auto
  with Pair that show ?thesis by simp
qed

text \<open>
  What \<open>ask\<close> has done after the response arrived, over the built-in storage: the user
  message is saved; then either the response has no choice and nothing more is saved, or
  reading the content of the first choice raises and the call fails with nothing more
  saved, or the assistant message is saved too.
\<close>

lemma ask_record_on_mongo:
  assumes "mongo_of client = Some m" and "ms_connected m" and "ms_up m"
    and "ch_memory_enabled c"
  obtains client2 where
    "mongo_of client2 = Some (m\<lparr>ms_reads := Suc (ms_reads m),
        ms_docs := ms_docs m @ [turn_doc c ''user'' message (ms_utcnow m (ms_reads m))]\<rparr>)"
    and "ask_record env client c message rid response =
          (case rs_choices response of
             [] \<Rightarrow> (Inr response, client2)
           | first # _ \<Rightarrow>
               (case choice_content first of
                  Inl e \<Rightarrow> (Inl e, client2)
                | Inr a \<Rightarrow>
                    (Inr response,
                     snd (chat_save_message env client2 (new_message env c ''assistant'' a)))))"
proof -
  obtain c1 where l: "chat_log_response client c (FullResponse response) rid = (Inr (), c1)"
    and mem1: "memory_manager c1 = memory_manager client"
    by (rule chat_log_response_result)
  from mongo_of_cong [OF mem1] assms(1) have m1: "mongo_of c1 = Some m"
    by simp
  then have on1: "memory_on c1 c"
    using assms(4) by (rule mongo_memory_on)
  have su: "stored_content (json_dumps env) (Str message) = Inr message"
    by (simp add: stored_content_def)
  obtain c2 where s1: "chat_save_message env c1 (new_message env c ''user'' (Str message))
                        = (Inr (), c2)"
    and m2: "mongo_of c2 = Some (m\<lparr>ms_reads := Suc (ms_reads m),
        ms_docs := ms_docs m @ [turn_doc c ''user'' message (ms_utcnow m (ms_reads m))]\<rparr>)"
    by (rule chat_save_message_result [OF m1 assms(2,3) su])
  have "ask_record env client c message rid response =
          (case rs_choices response of
             [] \<Rightarrow> (Inr response, c2)
           | first # _ \<Rightarrow>
               (case choice_content first of
                  Inl e \<Rightarrow> (Inl e, c2)
                | Inr a \<Rightarrow>
                    (Inr response,
                     snd (chat_save_message env c2 (new_message env c ''assistant'' a)))))"
  proof (cases "rs_choices response")
    case Nil
    then show ?thesis
      by (simp add: ask_record_def and_then_def l on1 s1)
  next
    case (Cons first rest)
    show ?thesis
    proof (cases "choice_content first")
      case (Inl e)
      with Cons show ?thesis
        by (simp add: ask_record_def and_then_def l on1 s1)
    next
      case (Inr a)
      obtain c3 where "chat_save_message env c2 (new_message env c ''assistant'' a) = (Inr (), c3)"
        by (rule chat_save_message_returns_unit)
      with Cons Inr show ?thesis
        by (simp add: ask_record_def and_then_def l on1 s1)
    qed
  qed
  with m2 that show ?thesis by blast
qed

lemma build_messages_result:
  obtains messages client1
  where "QianwenChat_build_messages env client c message = (Inr messages, client1)"
    and "mongo_of client1 = mongo_of client"
proof (cases "QianwenChat_build_messages env client c message")
  case (Pair r client1)
  with build_messages_never_raises [of env client c message] obtain messages
    where "r = Inr messages" by (cases r) auto
  moreover from Pair build_messages_frame [of env client c message]
  have "mongo_of client1 = mongo_of client" by simp
  ultimately show ?thesis using Pair that by simp
qed

lemma chat_except_result:
  obtains e' client1
  where "(chat_except prefix client c rp e :: (exn + 'a) \<times> _) = (Inl e', client1)"
    and "memory_manager client1 = memory_manager client"
  using chat_except_frame [of prefix client c rp e, where 'a = 'a]
  by (cases "chat_except prefix client c rp e :: (exn + 'a) \<times> _") auto

lemmas ask_defs =
  QianwenChat_ask_def ask_record_def chat_log_request_def chat_log_response_def
  chat_log_error_def chat_except_def choice_content_def
  chat_save_message_def memory_on_def new_message_def MemoryManager_save_message_def
  storage_save_message_def MongoMemoryStorage_save_message_def stored_content_def
  memory_docs_def mongo_of_def mm_mongo_def fmt_def cache_key_def api_down_def
  broken_reply_def

text \<open>
  The claim that whenever a turn is persisted both messages are, as exactly two new
  records, fails for a response without choices: \<open>ask\<close> saves the user message before
  it tests \<open>response_dict.get('choices')\<close>, so the call succeeds and leaves exactly one
  new record, the user message.
\<close>

theorem ask_without_choice_saves_user_alone:
  "fst (QianwenChat_ask (api (reply []) [])
       (client_over (mongo_manager [] 10) :: (unit, unit, int) QianwenClient) chat0 ''q'')
     = Inr (reply [])
   \<and> memory_docs (snd (QianwenChat_ask (api (reply []) [])
       (client_over (mongo_manager [] 10) :: (unit, unit, int) QianwenClient) chat0 ''q''))
     = [turn ''user'' ''q'' 100]"
  by (simp add: eval_defs ask_defs)

text \<open>
  C2, amended. Over the built-in storage, connected and reachable, with memory enabled:
  when \<open>ask\<close> returns a response whose first choice has a content that is a string or
  is accepted by \<open>json.dumps\<close>, the call has added exactly two documents to the
  collection, the user message first and the assistant message (the stored content of
  the first choice) second; and when \<open>ask\<close> fails, it has added no assistant message:
  the collection is unchanged (the request failed) or holds the user message as its one
  new document (reading the content of the first choice raised after the user message
  was saved).
\<close>

theorem ask_persists_whole_turn:
  assumes "mongo_of client = Some m" and "ms_connected m" and "ms_up m"
    and "ch_memory_enabled c"
  shows "(\<forall>response a rest stored client'.
            QianwenChat_ask env client c message = (Inr response, client')
            \<and> rs_choices response = Choice a # rest
            \<and> stored_content (json_dumps env) a = Inr stored
            \<longrightarrow> memory_docs client'
                  = ms_docs m @ [turn_doc c ''user'' message (ms_utcnow m (ms_reads m)),
                                 turn_doc c ''assistant'' stored
                                   (ms_utcnow m (Suc (ms_reads m)))])
     \<and> (\<forall>e client'. QianwenChat_ask env client c message = (Inl e, client')
            \<longrightarrow> memory_docs client' = ms_docs m
                \<or> memory_docs client'
                    = ms_docs m @ [turn_doc c ''user'' message (ms_utcnow m (ms_reads m))])"
proof -
  let ?ask = "QianwenChat_ask env client c message"
  let ?m1 = "m\<lparr>ms_reads := Suc (ms_reads m),
                ms_docs := ms_docs m @ [turn_doc c ''user'' message (ms_utcnow m (ms_reads m))]\<rparr>"
  obtain messages client1
    where b: "QianwenChat_build_messages env client c message = (Inr messages, client1)"
      and m1: "mongo_of client1 = mongo_of client"
    by (rule build_messages_result)
  let ?rp = "\<lparr>rp_model = ch_model c, rp_messages = messages,
               rp_temperature = ch_temperature c, rp_max_tokens = ch_max_tokens c,
               rp_stream = False, rp_tools = ch_search_enabled c,
               rp_stream_options = False\<rparr>"
  obtain rid client2 where lr: "chat_log_request env client1 c ?rp = (Inr rid, client2)"
    and mem2: "memory_manager client2 = memory_manager client1"
    by (rule chat_log_request_result)
  from mongo_of_cong [OF mem2] m1 assms(1) have m2: "mongo_of client2 = Some m"
    by simp
  show ?thesis
  proof (cases "completions_create env ?rp")
    case (Inl e0)
    obtain e' client3
      where ex: "(chat_except msg_api_failed client2 c (Some ?rp) e0
                   :: (exn + 'c response) \<times> _) = (Inl e', client3)"
        and mem3: "memory_manager client3 = memory_manager client2"
      by (rule chat_except_result)
    have "?ask = (Inl e', client3)"
      by (simp add: QianwenChat_ask_def b lr Inl ex and_then_def try_except_def)
    moreover from mongo_of_cong [OF mem3] m2 have "memory_docs client3 = ms_docs m"
      by (simp add: memory_docs_def)
    ultimately show ?thesis by simp
  next
    case (Inr response)
    obtain client3 where m3: "mongo_of client3 = Some ?m1"
      and rec: "ask_record env client2 c message rid response =
          (case rs_choices response of
             [] \<Rightarrow> (Inr response, client3)
           | first # _ \<Rightarrow>
               (case choice_content first of
                  Inl e \<Rightarrow> (Inl e, client3)
                | Inr a \<Rightarrow>
                    (Inr response,
                     snd (chat_save_message env client3 (new_message env c ''assistant'' a)))))"
      by (rule ask_record_on_mongo [OF m2 assms(2,3,4)])
    have ask: "?ask = try_except (ask_record env client2 c message rid response)
                 (\<lambda>e client'. chat_except msg_api_failed client' c (Some ?rp) e)"
      by (simp add: QianwenChat_ask_def b lr Inr and_then_def)
    show ?thesis
    proof (cases "rs_choices response")
      case Nil
      with ask rec have "?ask = (Inr response, client3)"
        by (simp add: try_except_def)
      with Nil show ?thesis by auto
    next
      case (Cons first rest)
      show ?thesis
      proof (cases first)
        case (Broken e0)
        obtain e' client4
          where ex: "(chat_except msg_api_failed client3 c (Some ?rp) e0
                       :: (exn + 'c response) \<times> _) = (Inl e', client4)"
            and mem4: "memory_manager client4 = memory_manager client3"
          by (rule chat_except_result)
        from ask rec Cons Broken ex have "?ask = (Inl e', client4)"
          by (simp add: try_except_def choice_content_def)
        moreover from mongo_of_cong [OF mem4] m3
        have "memory_docs client4
                = ms_docs m @ [turn_doc c ''user'' message (ms_utcnow m (ms_reads m))]"
          by (simp add: memory_docs_def)
        ultimately show ?thesis by simp
      next
        case (Choice a0)
        let ?c4 = "snd (chat_save_message env client3 (new_message env c ''assistant'' a0))"
        from ask rec Cons Choice have res: "?ask = (Inr response, ?c4)"
          by (simp add: try_except_def choice_content_def)
        have up1: "ms_connected ?m1" "ms_up ?m1"
          using assms(2,3) by simp_all
        have "memory_docs ?c4
                = ms_docs m @ [turn_doc c ''user'' message (ms_utcnow m (ms_reads m)),
                               turn_doc c ''assistant'' stored (ms_utcnow m (Suc (ms_reads m)))]"
          if st: "stored_content (json_dumps env) a0 = Inr stored" for stored
        proof -
          obtain c5 where "chat_save_message env client3 (new_message env c ''assistant'' a0)
                             = (Inr (), c5)"
            and "mongo_of c5 = Some (?m1\<lparr>ms_reads := Suc (ms_reads ?m1),
                   ms_docs := ms_docs ?m1 @
                     [turn_doc c ''assistant'' stored (ms_utcnow ?m1 (ms_reads ?m1))]\<rparr>)"
            by (rule chat_save_message_result [OF m3 up1 st])
          then show ?thesis by (simp add: memory_docs_def)
        qed
        with res Cons Choice show ?thesis by auto
      qed
    qed
  qed
qed

theorem ask_persists_whole_turn_witness:
  "memory_docs (snd (QianwenChat_ask (api (reply [''a'']) [])
       (client_over (mongo_manager [] 10) :: (unit, unit, int) QianwenClient) chat0 ''q''))
     = [turn ''user'' ''q'' 100, turn ''assistant'' ''a'' 101]
   \<and> memory_docs (snd (QianwenChat_ask api_down
       (client_over (mongo_manager [] 10) :: (unit, unit, int) QianwenClient) chat0 ''q''))
     = []
   \<and> (\<exists>e. fst (QianwenChat_ask (api broken_reply [])
       (client_over (mongo_manager [] 10) :: (unit, unit, int) QianwenClient) chat0 ''q'')
     = Inl e)
   \<and> memory_docs (snd (QianwenChat_ask (api broken_reply [])
       (client_over (mongo_manager [] 10) :: (unit, unit, int) QianwenClient) chat0 ''q''))
     = [turn ''user'' ''q'' 100]"
proof -
  let ?client = "client_over (mongo_manager [] 10) :: (unit, unit, int) QianwenClient"
  let ?ok = "QianwenChat_ask (api (reply [''a'']) []) ?client chat0 ''q''"
  let ?ko = "QianwenChat_ask api_down ?client chat0 ''q''"
  let ?br = "QianwenChat_ask (api broken_reply []) ?client chat0 ''q''"
  have hyps: "mongo_of ?client = Some (mongo_with [])" "ms_connected (mongo_with [])"
    "ms_up (mongo_with [])" "ch_memory_enabled chat0"
    by (simp_all add: mongo_of_def mm_mongo_def client_over_def mongo_manager_def
        mongo_with_def chat0_def)
  have "fst ?ok = Inr (reply [''a''])"
    by (simp add: eval_defs ask_defs)
  then have ok: "?ok = (Inr (reply [''a'']), snd ?ok)"
    by (cases ?ok) simp
  have "\<exists>e. fst ?ko = Inl e"
    by (simp add: eval_defs ask_defs)
  then obtain e where ko: "?ko = (Inl e, snd ?ko)"
    by (cases ?ko) auto
  have br_fails: "\<exists>e. fst ?br = Inl e"
    by (simp add: eval_defs ask_defs)
  then obtain e' where br: "?br = (Inl e', snd ?br)"
    by (cases ?br) auto
  have a: "rs_choices (reply [''a'']) = Choice (Str ''a'') # []"
    and b: "stored_content (json_dumps (api (reply [''a'']) [])) (Str ''a'') = Inr ''a''"
    by (simp_all add: reply_def stored_content_def)
  from ask_persists_whole_turn [OF hyps, of "api (reply [''a'']) []" "''q''"] ok a b
  have "memory_docs (snd ?ok)
          = ms_docs (mongo_with []) @
              [turn_doc chat0 ''user'' ''q'' (ms_utcnow (mongo_with []) (ms_reads (mongo_with []))),
               turn_doc chat0 ''assistant'' ''a''
                 (ms_utcnow (mongo_with []) (Suc (ms_reads (mongo_with []))))]"
    by blast
  moreover from ask_persists_whole_turn [OF hyps, of api_down "''q''"] ko
  have "memory_docs (snd ?ko) = ms_docs (mongo_with [])
      \<or> memory_docs (snd ?ko) = ms_docs (mongo_with []) @
           [turn_doc chat0 ''user'' ''q'' (ms_utcnow (mongo_with []) (ms_reads (mongo_with [])))]"
    by blast
  moreover have "memory_docs (snd ?ko) \<noteq> [turn ''user'' ''q'' 100]"
    by (simp add: eval_defs ask_defs)
  moreover from ask_persists_whole_turn [OF hyps, of "api broken_reply []" "''q''"] br
  have "memory_docs (snd ?br) = ms_docs (mongo_with [])
      \<or> memory_docs (snd ?br) = ms_docs (mongo_with []) @
           [turn_doc chat0 ''user'' ''q'' (ms_utcnow (mongo_with []) (ms_reads (mongo_with [])))]"
    by blast
  moreover have "memory_docs (snd ?br) \<noteq> []"
    by (simp add: eval_defs ask_defs)
  ultimately show ?thesis
    using br_fails by (simp add: mongo_with_def turn_doc_def turn_def chat0_def)
qed

section \<open>The turn persisted by stream\<close>

lemma accumulate_concat: "accumulate full_content chunks = full_content @ concat (map fragment chunks)"
  by (induction chunks arbitrary: full_content) simp_all

lemma stream_record_on_mongo:
  assumes "mongo_of client = Some m" and "ms_connected m" and "ms_up m"
    and "ch_memory_enabled c"
  shows "fst (stream_record env client c message rid full_content) = Inr ()
     \<and> memory_docs (snd (stream_record env client c message rid full_content))
         = ms_docs m @
             (if full_content = [] then []
              else [turn_doc c ''user'' message (ms_utcnow m (ms_reads m)),
                    turn_doc c ''assistant'' full_content (ms_utcnow m (Suc (ms_reads m)))])"
proof (cases "full_content = []")
  case True
  obtain c1 where l: "chat_log_response client c (StreamResponse full_content) rid = (Inr (), c1)"
    and mem1: "memory_manager c1 = memory_manager client"
    by (rule chat_log_response_result)
  from mongo_of_cong [OF mem1] assms(1) have "memory_docs c1 = ms_docs m"
    by (simp add: memory_docs_def)
  with True l show ?thesis
    by (simp add: stream_record_def and_then_def)
next
  case False
  let ?m1 = "m\<lparr>ms_reads := Suc (ms_reads m),
                ms_docs := ms_docs m @ [turn_doc c ''user'' message (ms_utcnow m (ms_reads m))]\<rparr>"
  have on: "memory_on client c"
    using assms(1,4) by (rule mongo_memory_on)
  have su: "stored_content (json_dumps env) (Str message) = Inr message"
    and sa: "stored_content (json_dumps env) (Str full_content) = Inr full_content"
    by (simp_all add: stored_content_def)
  obtain c1 where s1: "chat_save_message env client (new_message env c ''user'' (Str message))
                        = (Inr (), c1)"
    and m1: "mongo_of c1 = Some ?m1"
    by (rule chat_save_message_result [OF assms(1,2,3) su])
  have up1: "ms_connected ?m1" "ms_up ?m1"
    using assms(2,3) by simp_all
  obtain c2 where s2: "chat_save_message env c1 (new_message env c ''assistant'' (Str full_content))
                         = (Inr (), c2)"
    and m2: "mongo_of c2 = Some (?m1\<lparr>ms_reads := Suc (ms_reads ?m1),
           ms_docs := ms_docs ?m1 @
             [turn_doc c ''assistant'' full_content (ms_utcnow ?m1 (ms_reads ?m1))]\<rparr>)"
    by (rule chat_save_message_result [OF m1 up1 sa])
  obtain c3 where l: "chat_log_response c2 c (StreamResponse full_content) rid = (Inr (), c3)"
    and mem3: "memory_manager c3 = memory_manager c2"
    by (rule chat_log_response_result)
  from mongo_of_cong [OF mem3] m2
  have "memory_docs c3 = ms_docs m @
          [turn_doc c ''user'' message (ms_utcnow m (ms_reads m)),
           turn_doc c ''assistant'' full_content (ms_utcnow m (Suc (ms_reads m)))]"
    by (simp add: memory_docs_def)
  with False on s1 s2 l show ?thesis
    by (simp add: stream_record_def and_then_def)
qed

text \<open>
  C8. Over the built-in storage, connected and reachable, with memory enabled: when a
  \<open>stream\<close> call has been consumed to its end and ended normally, the documents it has
  added to the collection are the user message and an assistant message whose content is
  the concatenation, in arrival order, of the content fragments of the chunks it yielded;
  and when that concatenation is empty, it has added nothing. So the content of the
  assistant message persisted for the turn is always the concatenation of the fragments:
  the fragments \<open>"Hel"\<close>, \<open>"lo, "\<close>, \<open>"world!"\<close> persist \<open>"Hello, world!"\<close>.
\<close>

theorem stream_persists_concatenation:
  assumes "mongo_of client = Some m" and "ms_connected m" and "ms_up m"
    and "ch_memory_enabled c"
  shows "\<forall>yielded client'.
           QianwenChat_stream env client c message = (yielded, Inr (), client')
           \<longrightarrow> memory_docs client'
                 = ms_docs m @
                     (if concat (map fragment yielded) = [] then []
                      else [turn_doc c ''user'' message (ms_utcnow m (ms_reads m)),
                            turn_doc c ''assistant'' (concat (map fragment yielded))
                              (ms_utcnow m (Suc (ms_reads m)))])"
proof -
  let ?stream = "QianwenChat_stream env client c message"
  obtain messages client1
    where b: "QianwenChat_build_messages env client c message = (Inr messages, client1)"
      and m1: "mongo_of client1 = mongo_of client"
    by (rule build_messages_result)
  let ?rp = "\<lparr>rp_model = ch_model c, rp_messages = messages,
               rp_temperature = ch_temperature c, rp_max_tokens = ch_max_tokens c,
               rp_stream = True, rp_tools = ch_search_enabled c,
               rp_stream_options = False\<rparr>"
  obtain rid client2 where lr: "chat_log_request env client1 c ?rp = (Inr rid, client2)"
    and mem2: "memory_manager client2 = memory_manager client1"
    by (rule chat_log_request_result)
  from mongo_of_cong [OF mem2] m1 assms(1) have m2: "mongo_of client2 = Some m"
    by simp
  obtain rp' opened where os: "open_stream env ?rp = (rp', opened)"
    by (cases "open_stream env ?rp")
  have failed: "snd ?stream \<noteq> (Inr (), client')"
    if "snd ?stream = (chat_except msg_stream_failed client2 c (Some rp') e
                        :: (exn + unit) \<times> _)" for e client'
  proof -
    obtain e' client3
      where "(chat_except msg_stream_failed client2 c (Some rp') e :: (exn + unit) \<times> _)
               = (Inl e', client3)"
      by (rule chat_except_result)
    with that show ?thesis by simp
  qed
  show ?thesis
  proof (cases opened)
    case (Inl e)
    then have "snd ?stream = chat_except msg_stream_failed client2 c (Some rp') e"
      by (simp add: QianwenChat_stream_def b lr os)
    from failed [OF this] show ?thesis
      by (metis snd_conv)
  next
    case (Inr chunks_end)
    obtain chunks ending where ce: "chunks_end = (chunks, ending)"
      by (cases chunks_end)
    show ?thesis
    proof (cases ending)
      case (Some e)
      then have "snd ?stream = chat_except msg_stream_failed client2 c (Some rp') e"
        by (simp add: QianwenChat_stream_def b lr os Inr ce)
      from failed [OF this] show ?thesis
        by (metis snd_conv)
    next
      case None
      let ?rec = "stream_record env client2 c message rid (accumulate [] chunks)"
      from stream_record_on_mongo [OF m2 assms(2,3,4), of env message rid "accumulate [] chunks"]
      obtain client3 where rec: "?rec = (Inr (), client3)"
        and docs: "memory_docs client3
           = ms_docs m @
               (if concat (map fragment chunks) = [] then []
                else [turn_doc c ''user'' message (ms_utcnow m (ms_reads m)),
                      turn_doc c ''assistant'' (concat (map fragment chunks))
                        (ms_utcnow m (Suc (ms_reads m)))])"
        by (cases ?rec) (simp add: accumulate_concat)
      have "?stream = (chunks, Inr (), client3)"
        by (simp add: QianwenChat_stream_def b lr os Inr ce None rec try_except_def)
      with docs show ?thesis by simp
    qed
  qed
qed

lemmas stream_defs =
  QianwenChat_stream_def stream_record_def open_stream_def fragment_def delta_def

theorem stream_persists_concatenation_witness:
  "fst (QianwenChat_stream (api (reply []) [delta ''Hel'', delta ''lo, '', delta ''world!''])
       (client_over (mongo_manager [] 10) :: (unit, unit, int) QianwenClient) chat0 ''q'')
     = [delta ''Hel'', delta ''lo, '', delta ''world!'']
   \<and> memory_docs (snd (snd (QianwenChat_stream
       (api (reply []) [delta ''Hel'', delta ''lo, '', delta ''world!''])
       (client_over (mongo_manager [] 10) :: (unit, unit, int) QianwenClient) chat0 ''q'')))
     = [turn ''user'' ''q'' 100, turn ''assistant'' ''Hello, world!'' 101]"
proof -
  let ?client = "client_over (mongo_manager [] 10) :: (unit, unit, int) QianwenClient"
  let ?chunks = "[delta ''Hel'', delta ''lo, '', delta ''world!'']"
  let ?s = "QianwenChat_stream (api (reply []) ?chunks) ?client chat0 ''q''"
  have hyps: "mongo_of ?client = Some (mongo_with [])" "ms_connected (mongo_with [])"
    "ms_up (mongo_with [])" "ch_memory_enabled chat0"
    by (simp_all add: mongo_of_def mm_mongo_def client_over_def mongo_manager_def
        mongo_with_def chat0_def)
  have "fst ?s = ?chunks" and "fst (snd ?s) = Inr ()"
    by (simp_all add: eval_defs ask_defs stream_defs)
  then have run: "?s = (?chunks, Inr (), snd (snd ?s))"
    by (cases ?s) auto
  from stream_persists_concatenation [OF hyps, of "api (reply []) ?chunks" "''q''"] run
  have "memory_docs (snd (snd ?s))
          = ms_docs (mongo_with []) @
              (if concat (map fragment ?chunks) = [] then []
               else [turn_doc chat0 ''user'' ''q''
                       (ms_utcnow (mongo_with []) (ms_reads (mongo_with []))),
                     turn_doc chat0 ''assistant'' (concat (map fragment ?chunks))
                       (ms_utcnow (mongo_with []) (Suc (ms_reads (mongo_with []))))])"
    by blast
  with \<open>fst ?s = ?chunks\<close> show ?thesis
    by (simp add: fragment_def delta_def mongo_with_def turn_doc_def turn_def chat0_def)
qed

end
